theory Spec2Isabelle
  imports Main "HOL-Library.Word"
begin

unbundle bit_operations_syntax

section \<open>The build environment\<close>

text \<open>
  Every classifier of trlc-platform is a \<^verbatim>\<open>constexpr\<close> function whose body is selected by
  preprocessor conditionals over the predefined macros of the toolchain.  The embedding
  makes that environment an explicit argument: the table of predefined macros with their
  integer values (a macro is \<^emph>\<open>defined\<close> when the table has an entry for it), the names
  for which \<^verbatim>\<open>__has_builtin\<close> answers 1, \<^verbatim>\<open>sizeof(void*)\<close> in bytes, and the widths in bits
  of the types \<^verbatim>\<open>int\<close> and \<^verbatim>\<open>long\<close> of the implementation.
\<close>

record build_env =
  macros :: "(string \<times> int) list"
  builtins :: "string list"
  sizeof_void_ptr :: nat
  int_bits :: nat
  long_bits :: nat

text \<open>\<^verbatim>\<open>defined(NAME)\<close> and \<^verbatim>\<open>#ifdef NAME\<close> of the preprocessor.\<close>

definition defined :: "build_env \<Rightarrow> string \<Rightarrow> bool" where
  "defined env name = (case map_of (macros env) name of None \<Rightarrow> False | Some v \<Rightarrow> True)"

text \<open>
  The value a macro expands to.  An identifier that is not defined evaluates to 0 inside
  a preprocessor condition; outside of one the sources only expand macros that the
  selected branch has tested, or that the compiler tested there predefines together
  with the tested one.
\<close>

definition macro_value :: "build_env \<Rightarrow> string \<Rightarrow> int" where
  "macro_value env name = (case map_of (macros env) name of None \<Rightarrow> 0 | Some v \<Rightarrow> v)"

text \<open>\<^verbatim>\<open>__has_builtin(NAME)\<close>\<close>

definition has_builtin :: "build_env \<Rightarrow> string \<Rightarrow> bool" where
  "has_builtin env name = (name \<in> set (builtins env))"

text \<open>
  C++ integer division and remainder truncate towards zero, whereas \<open>div\<close> and \<open>mod\<close> of
  HOL round towards minus infinity.
\<close>

definition c_div :: "int \<Rightarrow> int \<Rightarrow> int" where
  "c_div a b = sgn a * sgn b * (\<bar>a\<bar> div \<bar>b\<bar>)"

definition c_mod :: "int \<Rightarrow> int \<Rightarrow> int" where
  "c_mod a b = a - b * c_div a b"

text \<open>
  The value of a macro is an integer literal, and an expression over it is computed in
  the type of the literal, which holds the value.  Where the sources pass such a value to
  a parameter of type \<^verbatim>\<open>int\<close>, or store it in a variable of type \<^verbatim>\<open>long\<close>, it is converted
  to that type: a value out of the range of the type wraps around, to the value of the
  type that is congruent to it modulo two to the width.
\<close>

definition to_int :: "build_env \<Rightarrow> int \<Rightarrow> int" where
  "to_int env v = signed_take_bit (int_bits env - 1) v"

definition to_long :: "build_env \<Rightarrow> int \<Rightarrow> int" where
  "to_long env v = signed_take_bit (long_bits env - 1) v"

text \<open>The values of the two types.\<close>

definition int_range :: "build_env \<Rightarrow> int \<Rightarrow> bool" where
  "int_range env v = (- (2 ^ (int_bits env - 1)) \<le> v \<and> v < 2 ^ (int_bits env - 1))"

definition long_range :: "build_env \<Rightarrow> int \<Rightarrow> bool" where
  "long_range env v = (- (2 ^ (long_bits env - 1)) \<le> v \<and> v < 2 ^ (long_bits env - 1))"

section \<open>compiler.hpp\<close>

datatype CompilerType = unknown | gcc | clang | msvc | intel_classic | intel_llvm | mingw

record CompilerVersion =
  major :: int
  minor :: int
  patch :: int

text \<open>\<^verbatim>\<open>CompilerVersion::operator>=\<close>\<close>

definition CompilerVersion_ge :: "CompilerVersion \<Rightarrow> CompilerVersion \<Rightarrow> bool" where
  "CompilerVersion_ge this other =
     (if major this \<noteq> major other then major this > major other
      else if minor this \<noteq> minor other then minor this > minor other
      else patch this \<ge> patch other)"

text \<open>\<^verbatim>\<open>CompilerVersion::operator<\<close>\<close>

definition CompilerVersion_lt :: "CompilerVersion \<Rightarrow> CompilerVersion \<Rightarrow> bool" where
  "CompilerVersion_lt this other =
     (if major this \<noteq> major other then major this < major other
      else if minor this \<noteq> minor other then minor this < minor other
      else patch this < patch other)"

text \<open>\<^verbatim>\<open>CompilerVersion::operator==\<close>\<close>

definition CompilerVersion_eq :: "CompilerVersion \<Rightarrow> CompilerVersion \<Rightarrow> bool" where
  "CompilerVersion_eq this other =
     (major this = major other \<and> minor this = minor other \<and> patch this = patch other)"

text \<open>\<^verbatim>\<open>CompilerVersion::operator!=\<close>\<close>

definition CompilerVersion_ne :: "CompilerVersion \<Rightarrow> CompilerVersion \<Rightarrow> bool" where
  "CompilerVersion_ne this other = (\<not> CompilerVersion_eq this other)"

text \<open>\<^verbatim>\<open>CompilerVersion::operator>\<close>\<close>

definition CompilerVersion_gt :: "CompilerVersion \<Rightarrow> CompilerVersion \<Rightarrow> bool" where
  "CompilerVersion_gt this other =
     (\<not> CompilerVersion_lt this other \<and> \<not> CompilerVersion_eq this other)"

text \<open>\<^verbatim>\<open>CompilerVersion::operator<=\<close>\<close>

definition CompilerVersion_le :: "CompilerVersion \<Rightarrow> CompilerVersion \<Rightarrow> bool" where
  "CompilerVersion_le this other =
     (CompilerVersion_lt this other \<or> CompilerVersion_eq this other)"

text \<open>The constructor \<^verbatim>\<open>CompilerVersion(int maj, int min, int pat)\<close>: each argument is
  converted to \<^verbatim>\<open>int\<close>.\<close>

definition mkCompilerVersion :: "build_env \<Rightarrow> int \<Rightarrow> int \<Rightarrow> int \<Rightarrow> CompilerVersion" where
  "mkCompilerVersion env maj mi pat =
     \<lparr>major = to_int env maj, minor = to_int env mi, patch = to_int env pat\<rparr>"

text \<open>\<^verbatim>\<open>getCompilerType()\<close>: the \<^verbatim>\<open>#if\<close>/\<^verbatim>\<open>#elif\<close> chain, in its order.\<close>

definition getCompilerType :: "build_env \<Rightarrow> CompilerType" where
  "getCompilerType env =
     (if defined env ''__INTEL_COMPILER'' \<or> defined env ''__ICL'' \<or> defined env ''__ICC'' then
        (if defined env ''__clang__'' then intel_llvm else intel_classic)
      else if defined env ''__clang__'' then clang
      else if defined env ''__GNUC__'' then
        (if defined env ''__MINGW32__'' \<or> defined env ''__MINGW64__'' then mingw else gcc)
      else if defined env ''_MSC_VER'' then msvc
      else CompilerType.unknown)"

text \<open>
  The two groups of signals that \<^verbatim>\<open>getCompilerType()\<close> tests together: the Intel signals and
  the MinGW signals.
\<close>

definition intel_signal :: "build_env \<Rightarrow> bool" where
  "intel_signal env =
     (defined env ''__INTEL_COMPILER'' \<or> defined env ''__ICL'' \<or> defined env ''__ICC'')"

definition mingw_signal :: "build_env \<Rightarrow> bool" where
  "mingw_signal env = (defined env ''__MINGW32__'' \<or> defined env ''__MINGW64__'')"

text \<open>\<^verbatim>\<open>getCompilerVersion()\<close>\<close>

definition getCompilerVersion :: "build_env \<Rightarrow> CompilerVersion" where
  "getCompilerVersion env =
     (if defined env ''__INTEL_COMPILER'' then
        mkCompilerVersion env
          (c_div (macro_value env ''__INTEL_COMPILER'') 100)
          (c_div (c_mod (macro_value env ''__INTEL_COMPILER'') 100) 10)
          (c_mod (macro_value env ''__INTEL_COMPILER'') 10)
      else if defined env ''__clang__'' then
        mkCompilerVersion env (macro_value env ''__clang_major__'') (macro_value env ''__clang_minor__'')
          (macro_value env ''__clang_patchlevel__'')
      else if defined env ''__GNUC__'' then
        (if defined env ''__GNUC_PATCHLEVEL__'' then
           mkCompilerVersion env (macro_value env ''__GNUC__'') (macro_value env ''__GNUC_MINOR__'')
             (macro_value env ''__GNUC_PATCHLEVEL__'')
         else
           mkCompilerVersion env (macro_value env ''__GNUC__'') (macro_value env ''__GNUC_MINOR__'') 0)
      else if defined env ''_MSC_VER'' then
        (if macro_value env ''_MSC_VER'' \<ge> 1940 then
           mkCompilerVersion env 19 4 (macro_value env ''_MSC_VER'' - 1940)
         else if macro_value env ''_MSC_VER'' \<ge> 1930 then
           mkCompilerVersion env 19 3 (macro_value env ''_MSC_VER'' - 1930)
         else if macro_value env ''_MSC_VER'' \<ge> 1920 then
           mkCompilerVersion env 19 2 (macro_value env ''_MSC_VER'' - 1920)
         else if macro_value env ''_MSC_VER'' \<ge> 1910 then
           mkCompilerVersion env 19 1 (macro_value env ''_MSC_VER'' - 1910)
         else if macro_value env ''_MSC_VER'' \<ge> 1900 then
           mkCompilerVersion env 19 0 (macro_value env ''_MSC_VER'' - 1900)
         else
           mkCompilerVersion env
             (c_div (macro_value env ''_MSC_VER'') 100)
             (c_div (c_mod (macro_value env ''_MSC_VER'') 100) 10)
             (c_mod (macro_value env ''_MSC_VER'') 10))
      else mkCompilerVersion env 0 0 0)"

section \<open>cpp_standard.hpp\<close>

datatype CppStandard = cpp_pre_17 | cpp_17 | cpp_20 | cpp_23 | cpp_26 | cpp_unknown

text \<open>The enumerators' values (\<^verbatim>\<open>enum class CppStandard : long\<close>).\<close>

fun CppStandard_value :: "CppStandard \<Rightarrow> int" where
  "CppStandard_value cpp_pre_17 = 0"
| "CppStandard_value cpp_17 = 201703"
| "CppStandard_value cpp_20 = 202002"
| "CppStandard_value cpp_23 = 202302"
| "CppStandard_value cpp_26 = 202600"
| "CppStandard_value cpp_unknown = - 1"

text \<open>The built-in \<^verbatim>\<open>>=\<close> on a scoped enumeration compares the underlying values.\<close>

definition CppStandard_ge :: "CppStandard \<Rightarrow> CppStandard \<Rightarrow> bool" where
  "CppStandard_ge a b = (CppStandard_value a \<ge> CppStandard_value b)"

text \<open>\<^verbatim>\<open>detail::detectCppStandard()\<close>: the signal is stored in
  \<^verbatim>\<open>constexpr long cpp_version\<close> and then compared.\<close>

definition detectCppStandard :: "build_env \<Rightarrow> CppStandard" where
  "detectCppStandard env =
     (let cpp_version =
        to_long env
          (if defined env ''_MSVC_LANG'' then macro_value env ''_MSVC_LANG''
           else if defined env ''__cplusplus'' then macro_value env ''__cplusplus''
           else 0) in
      if cpp_version \<ge> 202600 then cpp_26
      else if cpp_version \<ge> 202302 then cpp_23
      else if cpp_version \<ge> 202002 then cpp_20
      else if cpp_version \<ge> 201703 then cpp_17
      else if cpp_version \<ge> 201402 \<or> cpp_version \<ge> 201103 \<or> cpp_version \<ge> 199711 then cpp_pre_17
      else cpp_unknown)"

text \<open>\<^verbatim>\<open>detail::getCppVersionMacroValue()\<close>, which returns a \<^verbatim>\<open>long\<close>.\<close>

definition getCppVersionMacroValue :: "build_env \<Rightarrow> int" where
  "getCppVersionMacroValue env =
     to_long env
       (if defined env ''_MSVC_LANG'' then macro_value env ''_MSVC_LANG''
        else if defined env ''__cplusplus'' then macro_value env ''__cplusplus''
        else 0)"

definition getCppStandard :: "build_env \<Rightarrow> CppStandard" where
  "getCppStandard env = detectCppStandard env"

text \<open>The feature functions for the C++20 features.\<close>

definition hasConcepts :: "build_env \<Rightarrow> bool" where
  "hasConcepts env =
     (if defined env ''__cpp_concepts'' then macro_value env ''__cpp_concepts'' \<ge> 201907
      else CppStandard_ge (getCppStandard env) cpp_20)"

definition hasCoroutines :: "build_env \<Rightarrow> bool" where
  "hasCoroutines env =
     (if defined env ''__cpp_impl_coroutine'' then macro_value env ''__cpp_impl_coroutine'' \<ge> 201902
      else if defined env ''__cpp_coroutines'' then macro_value env ''__cpp_coroutines'' \<ge> 201902
      else CppStandard_ge (getCppStandard env) cpp_20)"

definition hasModules :: "build_env \<Rightarrow> bool" where
  "hasModules env =
     (if defined env ''__cpp_modules'' then macro_value env ''__cpp_modules'' \<ge> 201907
      else False)"

definition hasRanges :: "build_env \<Rightarrow> bool" where
  "hasRanges env =
     (if defined env ''__cpp_lib_ranges'' then macro_value env ''__cpp_lib_ranges'' \<ge> 201911
      else CppStandard_ge (getCppStandard env) cpp_20)"

definition hasConsteval :: "build_env \<Rightarrow> bool" where
  "hasConsteval env =
     (if defined env ''__cpp_consteval'' then macro_value env ''__cpp_consteval'' \<ge> 201811
      else CppStandard_ge (getCppStandard env) cpp_20)"

definition hasConstinit :: "build_env \<Rightarrow> bool" where
  "hasConstinit env =
     (if defined env ''__cpp_constinit'' then macro_value env ''__cpp_constinit'' \<ge> 201907
      else CppStandard_ge (getCppStandard env) cpp_20)"

definition hasDesignatedInitializers :: "build_env \<Rightarrow> bool" where
  "hasDesignatedInitializers env =
     (if defined env ''__cpp_designated_initializers'' then
        macro_value env ''__cpp_designated_initializers'' \<ge> 201707
      else CppStandard_ge (getCppStandard env) cpp_20)"

definition hasThreeWayComparison :: "build_env \<Rightarrow> bool" where
  "hasThreeWayComparison env =
     (if defined env ''__cpp_impl_three_way_comparison'' then
        macro_value env ''__cpp_impl_three_way_comparison'' \<ge> 201907
      else CppStandard_ge (getCppStandard env) cpp_20)"

section \<open>endianness.hpp\<close>

datatype ByteOrder = unknown | little_endian | big_endian | mixed_endian

record EndiannessInfo =
  byte_order :: ByteOrder
  is_little_endian :: bool
  is_big_endian :: bool

text \<open>\<^verbatim>\<open>EndiannessInfo::isNativeOrder\<close> and \<^verbatim>\<open>EndiannessInfo::needsByteSwap\<close>\<close>

definition isNativeOrder :: "EndiannessInfo \<Rightarrow> ByteOrder \<Rightarrow> bool" where
  "isNativeOrder this ord = (byte_order this = ord)"

definition needsByteSwap :: "EndiannessInfo \<Rightarrow> ByteOrder \<Rightarrow> bool" where
  "needsByteSwap this target_order =
     (if byte_order this = ByteOrder.unknown \<or> target_order = ByteOrder.unknown then False
      else byte_order this \<noteq> target_order)"

text \<open>\<^verbatim>\<open>detail::detectByteOrderCompileTime()\<close>\<close>

definition detectByteOrderCompileTime :: "build_env \<Rightarrow> ByteOrder" where
  "detectByteOrderCompileTime env =
     (if defined env ''__BYTE_ORDER__'' \<and> defined env ''__ORDER_LITTLE_ENDIAN__''
          \<and> defined env ''__ORDER_BIG_ENDIAN__'' then
        (if macro_value env ''__BYTE_ORDER__'' = macro_value env ''__ORDER_LITTLE_ENDIAN__''
           then little_endian
         else if macro_value env ''__BYTE_ORDER__'' = macro_value env ''__ORDER_BIG_ENDIAN__''
           then big_endian
         else mixed_endian)
      else if defined env ''BYTE_ORDER'' \<and> defined env ''LITTLE_ENDIAN''
          \<and> defined env ''BIG_ENDIAN'' then
        (if macro_value env ''BYTE_ORDER'' = macro_value env ''LITTLE_ENDIAN'' then little_endian
         else if macro_value env ''BYTE_ORDER'' = macro_value env ''BIG_ENDIAN'' then big_endian
         else mixed_endian)
      else if defined env ''_WIN32'' \<or> defined env ''_WIN64'' then little_endian
      else if defined env ''__LITTLE_ENDIAN__'' \<or> defined env ''__ARMEL__'' then little_endian
      else if defined env ''__BIG_ENDIAN__'' \<or> defined env ''__ARMEB__'' then big_endian
      else if defined env ''__i386__'' \<or> defined env ''__x86_64__'' \<or> defined env ''__amd64__''
          \<or> defined env ''_M_IX86'' \<or> defined env ''_M_X64'' \<or> defined env ''_M_AMD64''
          \<or> defined env ''__aarch64__'' \<or> defined env ''_M_ARM64'' then little_endian
      else if defined env ''__sparc__'' \<or> defined env ''__sparc'' \<or> defined env ''__MIPSEB__''
          \<or> defined env ''_POWER''
          \<or> (defined env ''__powerpc__'' \<and> defined env ''__BIG_ENDIAN__'') then big_endian
      else ByteOrder.unknown)"

text \<open>\<^verbatim>\<open>detail::detectByteOrderRuntime()\<close>, a function that is not \<^verbatim>\<open>constexpr\<close>: it reads the
  first byte of a union that holds the \<^verbatim>\<open>uint32_t\<close> value \<^verbatim>\<open>0x01020304\<close>.  The argument is
  that byte, as the target stores it.\<close>

definition detectByteOrderRuntime :: "8 word \<Rightarrow> ByteOrder" where
  "detectByteOrderRuntime first_byte =
     (if first_byte = 0x01 then big_endian
      else if first_byte = 0x04 then little_endian
      else mixed_endian)"

text \<open>
  \<^verbatim>\<open>getByteOrder()\<close> is \<^verbatim>\<open>constexpr\<close> and the header evaluates it in constant expressions
  (\<^verbatim>\<open>constexpr ByteOrder order = getByteOrder()\<close> in \<^verbatim>\<open>getEndiannessInfo()\<close>,
  \<^verbatim>\<open>if constexpr (isLittleEndian())\<close> in \<^verbatim>\<open>hostToNetwork\<close>).  When the compile-time detection
  gives \<open>unknown\<close>, the branch that remains calls \<^verbatim>\<open>detectByteOrderRuntime()\<close>, which no
  constant expression may call: the header is ill-formed and there is no program.  This is
  the result \<open>None\<close>.
\<close>

definition getByteOrder :: "build_env \<Rightarrow> ByteOrder option" where
  "getByteOrder env =
     (if detectByteOrderCompileTime env \<noteq> ByteOrder.unknown
      then Some (detectByteOrderCompileTime env)
      else None)"

definition getEndiannessInfo :: "build_env \<Rightarrow> EndiannessInfo option" where
  "getEndiannessInfo env =
     (case getByteOrder env of
        None \<Rightarrow> None
      | Some ord \<Rightarrow>
          Some \<lparr>byte_order = ord,
                is_little_endian = (ord = little_endian),
                is_big_endian = (ord = big_endian)\<rparr>)"

subsection \<open>Byte swapping\<close>

text \<open>
  The compiler intrinsics \<^verbatim>\<open>__builtin_bswap16\<close>, \<^verbatim>\<open>__builtin_bswap32\<close> and
  \<^verbatim>\<open>__builtin_bswap64\<close> are not code of the library.  The compilers document them as
  returning the argument with the order of its 8-bit bytes reversed: the bytes of the
  argument, least significant first, are put together again with the first one as the
  most significant.
\<close>

definition reverse_bytes :: "nat \<Rightarrow> 'a::len word \<Rightarrow> 'a word" where
  "reverse_bytes n x = word_rcat (map (\<lambda>i. ucast (drop_bit (8 * i) x) :: 8 word) [0..<n])"

definition builtin_bswap16 :: "16 word \<Rightarrow> 16 word" where
  "builtin_bswap16 x = reverse_bytes 2 x"

definition builtin_bswap32 :: "32 word \<Rightarrow> 32 word" where
  "builtin_bswap32 x = reverse_bytes 4 x"

definition builtin_bswap64 :: "64 word \<Rightarrow> 64 word" where
  "builtin_bswap64 x = reverse_bytes 8 x"

text \<open>
  The manual implementations.  In \<^verbatim>\<open>(value << 8) | (value >> 8)\<close> the \<^verbatim>\<open>uint16_t\<close> operand is
  promoted to \<^verbatim>\<open>int\<close> before it is shifted, and the result is cast back to 16 bits.
\<close>

definition byteSwap16_manual :: "16 word \<Rightarrow> 16 word" where
  "byteSwap16_manual v =
     ucast (push_bit 8 (ucast v :: 32 word) OR drop_bit 8 (ucast v :: 32 word))"

definition byteSwap32_manual :: "32 word \<Rightarrow> 32 word" where
  "byteSwap32_manual v =
     drop_bit 24 (v AND 0xFF000000) OR drop_bit 8 (v AND 0x00FF0000) OR
     push_bit 8 (v AND 0x0000FF00) OR push_bit 24 (v AND 0x000000FF)"

definition byteSwap64_manual :: "64 word \<Rightarrow> 64 word" where
  "byteSwap64_manual v =
     drop_bit 56 (v AND 0xFF00000000000000) OR drop_bit 40 (v AND 0x00FF000000000000) OR
     drop_bit 24 (v AND 0x0000FF0000000000) OR drop_bit 8 (v AND 0x000000FF00000000) OR
     push_bit 8 (v AND 0x00000000FF000000) OR push_bit 24 (v AND 0x0000000000FF0000) OR
     push_bit 40 (v AND 0x000000000000FF00) OR push_bit 56 (v AND 0x00000000000000FF)"

text \<open>\<^verbatim>\<open>detail::byteSwap16Impl\<close>, \<^verbatim>\<open>detail::byteSwap32Impl\<close>, \<^verbatim>\<open>detail::byteSwap64Impl\<close>:
  each selects the manual implementation or the intrinsic.\<close>

definition byteSwap16Impl :: "build_env \<Rightarrow> 16 word \<Rightarrow> 16 word" where
  "byteSwap16Impl env v =
     (if defined env ''_MSC_VER'' then byteSwap16_manual v
      else if defined env ''__GNUC__'' \<or> defined env ''__clang__'' then
        (if has_builtin env ''__builtin_bswap16'' then builtin_bswap16 v
         else byteSwap16_manual v)
      else byteSwap16_manual v)"

definition byteSwap32Impl :: "build_env \<Rightarrow> 32 word \<Rightarrow> 32 word" where
  "byteSwap32Impl env v =
     (if defined env ''_MSC_VER'' then byteSwap32_manual v
      else if defined env ''__GNUC__'' \<or> defined env ''__clang__'' then
        (if has_builtin env ''__builtin_bswap32'' then builtin_bswap32 v
         else byteSwap32_manual v)
      else byteSwap32_manual v)"

definition byteSwap64Impl :: "build_env \<Rightarrow> 64 word \<Rightarrow> 64 word" where
  "byteSwap64Impl env v =
     (if defined env ''_MSC_VER'' then byteSwap64_manual v
      else if defined env ''__GNUC__'' \<or> defined env ''__clang__'' then
        (if has_builtin env ''__builtin_bswap64'' then builtin_bswap64 v
         else byteSwap64_manual v)
      else byteSwap64_manual v)"

definition byteSwap16 :: "build_env \<Rightarrow> 16 word \<Rightarrow> 16 word" where
  "byteSwap16 env v = byteSwap16Impl env v"

definition byteSwap32 :: "build_env \<Rightarrow> 32 word \<Rightarrow> 32 word" where
  "byteSwap32 env v = byteSwap32Impl env v"

definition byteSwap64 :: "build_env \<Rightarrow> 64 word \<Rightarrow> 64 word" where
  "byteSwap64 env v = byteSwap64Impl env v"

text \<open>
  The template \<^verbatim>\<open>byteSwap<Type>\<close> accepts every integral type of at most 64 bits and
  dispatches on \<^verbatim>\<open>sizeof(Type)\<close>.  A value of such a type is its object representation, a
  word of 8, 16, 32 or 64 bits; the casts to the unsigned type of the same size and back
  keep the bits, for signed and unsigned types alike.
\<close>

datatype integral = Int8 "8 word" | Int16 "16 word" | Int32 "32 word" | Int64 "64 word"

fun byteSwap :: "build_env \<Rightarrow> integral \<Rightarrow> integral" where
  "byteSwap env (Int8 v) = Int8 v"
| "byteSwap env (Int16 v) = Int16 (byteSwap16 env v)"
| "byteSwap env (Int32 v) = Int32 (byteSwap32 env v)"
| "byteSwap env (Int64 v) = Int64 (byteSwap64 env v)"

text \<open>\<^verbatim>\<open>areByteOrdersCompatible\<close>, \<^verbatim>\<open>getOppositeByteOrder\<close>, \<^verbatim>\<open>convertByteOrder\<close>\<close>

definition areByteOrdersCompatible :: "ByteOrder \<Rightarrow> ByteOrder \<Rightarrow> bool" where
  "areByteOrdersCompatible order1 order2 =
     (if order1 = ByteOrder.unknown \<or> order2 = ByteOrder.unknown then True
      else order1 = order2)"

fun getOppositeByteOrder :: "ByteOrder \<Rightarrow> ByteOrder" where
  "getOppositeByteOrder little_endian = big_endian"
| "getOppositeByteOrder big_endian = little_endian"
| "getOppositeByteOrder _ = ByteOrder.unknown"

definition convertByteOrder :: "build_env \<Rightarrow> integral \<Rightarrow> ByteOrder \<Rightarrow> ByteOrder \<Rightarrow> integral" where
  "convertByteOrder env v from_order to_order =
     (if areByteOrdersCompatible from_order to_order then v else byteSwap env v)"

section \<open>architecture.hpp\<close>

datatype CpuArchitecture =
  unknown | x86 | x86_64 | arm_v6 | arm_v7 | arm_v8_32 | arm_v8_64 | mips | mips_64
  | powerpc | powerpc_64 | risc_v_32 | risc_v_64 | sparc | sparc_64

record ArchitectureInfo =
  architecture :: CpuArchitecture
  byte_order :: ByteOrder
  pointer_size_bits :: int
  cache_line_size :: nat
  arch_name :: string

text \<open>\<^verbatim>\<open>ArchitectureInfo::is64Bit\<close> and \<^verbatim>\<open>ArchitectureInfo::is32Bit\<close>\<close>

definition is64Bit :: "ArchitectureInfo \<Rightarrow> bool" where
  "is64Bit this = (pointer_size_bits this = 64)"

definition is32Bit :: "ArchitectureInfo \<Rightarrow> bool" where
  "is32Bit this = (pointer_size_bits this = 32)"

text \<open>\<^verbatim>\<open>detail::detectCpuArchitecture()\<close>\<close>

definition detectCpuArchitecture :: "build_env \<Rightarrow> CpuArchitecture" where
  "detectCpuArchitecture env =
     (if defined env ''__x86_64__'' \<or> defined env ''__x86_64'' \<or> defined env ''__amd64__''
          \<or> defined env ''__amd64'' \<or> defined env ''_M_X64'' then x86_64
      else if defined env ''__i386__'' \<or> defined env ''__i386'' \<or> defined env ''__i486__''
          \<or> defined env ''__i586__'' \<or> defined env ''__i686__'' \<or> defined env ''_M_IX86'' then x86
      else if defined env ''__aarch64__'' \<or> defined env ''_M_ARM64'' then arm_v8_64
      else if defined env ''__arm__'' \<or> defined env ''_M_ARM'' then
        (if defined env ''__ARM_ARCH_8__'' \<or> defined env ''__ARM_ARCH_8A__'' then arm_v8_32
         else if defined env ''__ARM_ARCH_7__'' \<or> defined env ''__ARM_ARCH_7A__''
             \<or> defined env ''__ARM_ARCH_7R__'' \<or> defined env ''__ARM_ARCH_7M__''
             \<or> defined env ''__ARM_ARCH_7S__'' then arm_v7
         else if defined env ''__ARM_ARCH_6__'' \<or> defined env ''__ARM_ARCH_6J__''
             \<or> defined env ''__ARM_ARCH_6K__'' \<or> defined env ''__ARM_ARCH_6Z__''
             \<or> defined env ''__ARM_ARCH_6ZK__'' \<or> defined env ''__ARM_ARCH_6T2__'' then arm_v6
         else arm_v7)
      else if defined env ''__mips__'' \<or> defined env ''__mips'' \<or> defined env ''__MIPS__'' then
        (if defined env ''__mips64__'' \<or> defined env ''__mips64''
             \<or> macro_value env ''_MIPS_SIM'' = macro_value env ''_ABI64'' then mips_64
         else mips)
      else if defined env ''__powerpc__'' \<or> defined env ''__powerpc'' \<or> defined env ''__ppc__''
          \<or> defined env ''__ppc'' \<or> defined env ''_M_PPC'' then
        (if defined env ''__powerpc64__'' \<or> defined env ''__ppc64__'' \<or> defined env ''__PPC64__''
             \<or> defined env ''_ARCH_PPC64'' then powerpc_64
         else powerpc)
      else if defined env ''__riscv'' then
        (if defined env ''__riscv_xlen'' \<and> macro_value env ''__riscv_xlen'' = 64 then risc_v_64
         else if defined env ''__riscv_xlen'' \<and> macro_value env ''__riscv_xlen'' = 32 then risc_v_32
         else risc_v_64)
      else if defined env ''__sparc__'' \<or> defined env ''__sparc'' then
        (if defined env ''__sparc64__'' \<or> defined env ''__sparcv9'' then sparc_64 else sparc)
      else CpuArchitecture.unknown)"

text \<open>\<^verbatim>\<open>detail::detectPointerSize()\<close>: a switch over the detected architecture whose
  default is \<^verbatim>\<open>sizeof(void*) * 8\<close>, converted to the return type \<^verbatim>\<open>int\<close>.\<close>

fun pointer_size_of :: "build_env \<Rightarrow> CpuArchitecture \<Rightarrow> int" where
  "pointer_size_of env x86_64 = 64"
| "pointer_size_of env arm_v8_64 = 64"
| "pointer_size_of env mips_64 = 64"
| "pointer_size_of env powerpc_64 = 64"
| "pointer_size_of env risc_v_64 = 64"
| "pointer_size_of env sparc_64 = 64"
| "pointer_size_of env x86 = 32"
| "pointer_size_of env arm_v6 = 32"
| "pointer_size_of env arm_v7 = 32"
| "pointer_size_of env arm_v8_32 = 32"
| "pointer_size_of env mips = 32"
| "pointer_size_of env powerpc = 32"
| "pointer_size_of env risc_v_32 = 32"
| "pointer_size_of env sparc = 32"
| "pointer_size_of env _ = to_int env (int (sizeof_void_ptr env * 8))"

definition detectPointerSize :: "build_env \<Rightarrow> int" where
  "detectPointerSize env = pointer_size_of env (detectCpuArchitecture env)"

text \<open>\<^verbatim>\<open>detail::detectCacheLineSize()\<close>\<close>

fun cache_line_size_of :: "CpuArchitecture \<Rightarrow> nat" where
  "cache_line_size_of x86 = 64"
| "cache_line_size_of x86_64 = 64"
| "cache_line_size_of arm_v6 = 32"
| "cache_line_size_of arm_v7 = 32"
| "cache_line_size_of arm_v8_32 = 64"
| "cache_line_size_of arm_v8_64 = 64"
| "cache_line_size_of powerpc = 128"
| "cache_line_size_of powerpc_64 = 128"
| "cache_line_size_of _ = 64"

definition detectCacheLineSize :: "build_env \<Rightarrow> nat" where
  "detectCacheLineSize env = cache_line_size_of (detectCpuArchitecture env)"

text \<open>\<^verbatim>\<open>detail::getArchitectureName()\<close>\<close>

fun architecture_name_of :: "CpuArchitecture \<Rightarrow> string" where
  "architecture_name_of x86 = ''x86''"
| "architecture_name_of x86_64 = ''x86_64''"
| "architecture_name_of arm_v6 = ''ARM v6''"
| "architecture_name_of arm_v7 = ''ARM v7''"
| "architecture_name_of arm_v8_32 = ''ARM v8 (32-bit)''"
| "architecture_name_of arm_v8_64 = ''ARM v8 (64-bit)''"
| "architecture_name_of mips = ''MIPS''"
| "architecture_name_of mips_64 = ''MIPS64''"
| "architecture_name_of powerpc = ''PowerPC''"
| "architecture_name_of powerpc_64 = ''PowerPC64''"
| "architecture_name_of risc_v_32 = ''RISC-V 32''"
| "architecture_name_of risc_v_64 = ''RISC-V 64''"
| "architecture_name_of sparc = ''SPARC''"
| "architecture_name_of sparc_64 = ''SPARC64''"
| "architecture_name_of _ = ''Unknown''"

definition getArchitectureName :: "build_env \<Rightarrow> string" where
  "getArchitectureName env = architecture_name_of (detectCpuArchitecture env)"

text \<open>\<^verbatim>\<open>getArchitectureInfo()\<close>; architecture.hpp includes endianness.hpp, so that there is
  a result only where \<open>getByteOrder\<close> has one.\<close>

definition getArchitectureInfo :: "build_env \<Rightarrow> ArchitectureInfo option" where
  "getArchitectureInfo env =
     (case getByteOrder env of
        None \<Rightarrow> None
      | Some ord \<Rightarrow>
          Some \<lparr>architecture = detectCpuArchitecture env,
                byte_order = ord,
                pointer_size_bits = detectPointerSize env,
                cache_line_size = detectCacheLineSize env,
                arch_name = getArchitectureName env\<rparr>)"

section \<open>features.hpp\<close>

text \<open>\<^verbatim>\<open>TRLC_HAS_X86_INTRINSICS\<close> and \<^verbatim>\<open>TRLC_HAS_ARM_INTRINSICS\<close>, as the header defines them.\<close>

definition TRLC_HAS_X86_INTRINSICS :: "build_env \<Rightarrow> bool" where
  "TRLC_HAS_X86_INTRINSICS env =
     (defined env ''__x86_64__'' \<or> defined env ''__i386__'' \<or> defined env ''_M_X64''
      \<or> defined env ''_M_IX86'')"

definition TRLC_HAS_ARM_INTRINSICS :: "build_env \<Rightarrow> bool" where
  "TRLC_HAS_ARM_INTRINSICS env = (defined env ''__ARM_NEON'' \<or> defined env ''__aarch64__'')"

text \<open>
  The processor the program runs on answers the CPU-identification query: for a leaf (in
  EAX) and a sub-leaf (in ECX) the instruction returns the four registers EAX, EBX, ECX
  and EDX.  The intrinsics \<^verbatim>\<open>__cpuidex\<close> and \<^verbatim>\<open>__cpuid_count\<close> issue that
  instruction and store the registers in this order.
\<close>

record cpuid_registers =
  eax :: "32 word"
  ebx :: "32 word"
  ecx :: "32 word"
  edx :: "32 word"

type_synonym processor = "32 word \<Rightarrow> 32 word \<Rightarrow> cpuid_registers"

text \<open>\<^verbatim>\<open>detail::cpuid\<close>: the contents of \<^verbatim>\<open>regs[0..3]\<close> after the call.\<close>

definition cpuid :: "build_env \<Rightarrow> processor \<Rightarrow> 32 word \<Rightarrow> 32 word \<Rightarrow> 32 word list" where
  "cpuid env cpu leaf subleaf =
     (if defined env ''_MSC_VER'' then
        [eax (cpu leaf subleaf), ebx (cpu leaf subleaf), ecx (cpu leaf subleaf), edx (cpu leaf subleaf)]
      else if defined env ''__GNUC__'' \<or> defined env ''__clang__'' then
        [eax (cpu leaf subleaf), ebx (cpu leaf subleaf), ecx (cpu leaf subleaf), edx (cpu leaf subleaf)]
      else [0, 0, 0, 0])"

text \<open>\<^verbatim>\<open>detail::checkCpuFeature\<close>; every call of the header passes a register index below
  4 and a bit index below 32.\<close>

definition checkCpuFeature :: "build_env \<Rightarrow> processor \<Rightarrow> 32 word \<Rightarrow> 32 word \<Rightarrow> nat \<Rightarrow> nat \<Rightarrow> bool" where
  "checkCpuFeature env cpu leaf subleaf reg b =
     ((cpuid env cpu leaf subleaf ! reg) AND push_bit b 1 \<noteq> 0)"

definition hasSseSupport :: "build_env \<Rightarrow> processor \<Rightarrow> bool" where
  "hasSseSupport env cpu =
     (if TRLC_HAS_X86_INTRINSICS env then checkCpuFeature env cpu 1 0 3 25 else False)"

definition hasSse2Support :: "build_env \<Rightarrow> processor \<Rightarrow> bool" where
  "hasSse2Support env cpu =
     (if TRLC_HAS_X86_INTRINSICS env then checkCpuFeature env cpu 1 0 3 26 else False)"

definition hasSse3Support :: "build_env \<Rightarrow> processor \<Rightarrow> bool" where
  "hasSse3Support env cpu =
     (if TRLC_HAS_X86_INTRINSICS env then checkCpuFeature env cpu 1 0 2 0 else False)"

definition hasSse41Support :: "build_env \<Rightarrow> processor \<Rightarrow> bool" where
  "hasSse41Support env cpu =
     (if TRLC_HAS_X86_INTRINSICS env then checkCpuFeature env cpu 1 0 2 19 else False)"

definition hasSse42Support :: "build_env \<Rightarrow> processor \<Rightarrow> bool" where
  "hasSse42Support env cpu =
     (if TRLC_HAS_X86_INTRINSICS env then checkCpuFeature env cpu 1 0 2 20 else False)"

definition hasAvxSupport :: "build_env \<Rightarrow> processor \<Rightarrow> bool" where
  "hasAvxSupport env cpu =
     (if TRLC_HAS_X86_INTRINSICS env then checkCpuFeature env cpu 1 0 2 28 else False)"

definition hasAvx2Support :: "build_env \<Rightarrow> processor \<Rightarrow> bool" where
  "hasAvx2Support env cpu =
     (if TRLC_HAS_X86_INTRINSICS env then checkCpuFeature env cpu 7 0 1 5 else False)"

definition hasAvx512fSupport :: "build_env \<Rightarrow> processor \<Rightarrow> bool" where
  "hasAvx512fSupport env cpu =
     (if TRLC_HAS_X86_INTRINSICS env then checkCpuFeature env cpu 7 0 1 16 else False)"

definition hasNeonSupport :: "build_env \<Rightarrow> bool" where
  "hasNeonSupport env =
     (if TRLC_HAS_ARM_INTRINSICS env then
        (if defined env ''__ARM_NEON'' then True
         else if defined env ''__aarch64__'' then True
         else False)
      else False)"

definition hasHardwareAes :: "build_env \<Rightarrow> processor \<Rightarrow> bool" where
  "hasHardwareAes env cpu =
     (if TRLC_HAS_X86_INTRINSICS env then checkCpuFeature env cpu 1 0 2 25
      else if TRLC_HAS_ARM_INTRINSICS env \<and> defined env ''__ARM_FEATURE_AES'' then True
      else False)"

definition hasHardwareRandom :: "build_env \<Rightarrow> processor \<Rightarrow> bool" where
  "hasHardwareRandom env cpu =
     (if TRLC_HAS_X86_INTRINSICS env then checkCpuFeature env cpu 1 0 2 30 else False)"

text \<open>A processor whose query answers zero in every register.\<close>

definition zero_processor :: processor where
  "zero_processor leaf subleaf = \<lparr>eax = 0, ebx = 0, ecx = 0, edx = 0\<rparr>"

text \<open>The compilers for which \<^verbatim>\<open>detail::cpuid\<close> has an intrinsic to issue the query.\<close>

definition compiler_has_cpuid :: "build_env \<Rightarrow> bool" where
  "compiler_has_cpuid env =
     (defined env ''_MSC_VER'' \<or> defined env ''__GNUC__'' \<or> defined env ''__clang__'')"

text \<open>A processor that reports SSE and SSE2 (bits 25 and 26 of EDX in leaf 1) and nothing
  else.\<close>

definition sse2_processor :: processor where
  "sse2_processor leaf subleaf =
     (if leaf = 1 \<and> subleaf = 0 then \<lparr>eax = 0, ebx = 0, ecx = 0, edx = 0x06000000\<rparr>
      else \<lparr>eax = 0, ebx = 0, ecx = 0, edx = 0\<rparr>)"

section \<open>core.hpp: the initialization state\<close>

text \<open>
  \<^verbatim>\<open>initializePlatform()\<close> works on two atomic flags.  Each atomic operation of a call is one
  step of the calling thread, and an execution is an interleaving of the steps of the
  threads, given as the list of the threads that step in turn.  The position of a thread
  inside \<^verbatim>\<open>initializePlatform()\<close> is its program counter:
  \<^item> \<open>Idle\<close>: outside of the function (before the call or after a return);
  \<^item> \<open>LoadDone\<close>: at the first load of \<^verbatim>\<open>g_platform_initialized\<close>;
  \<^item> \<open>CasInProgress\<close>: at the compare-exchange on \<^verbatim>\<open>g_initialization_in_progress\<close>;
  \<^item> \<open>SpinWait\<close>: at the load of the waiting loop;
  \<^item> \<open>StoreDone\<close>: at the store of \<open>true\<close> to \<^verbatim>\<open>g_platform_initialized\<close>;
  \<^item> \<open>ClearInProgress\<close>: at the final store of \<open>false\<close> to
    \<^verbatim>\<open>g_initialization_in_progress\<close>.
  The \<^verbatim>\<open>try\<close> block holds nothing but the store of an atomic, which does not throw, so the
  handler is never entered and has no step.
\<close>

datatype pc = Idle | LoadDone | CasInProgress | SpinWait | StoreDone | ClearInProgress

type_synonym thread = nat

record init_state =
  g_platform_initialized :: bool
  g_initialization_in_progress :: bool
  pcs :: "thread \<Rightarrow> pc"

definition initial_state :: init_state where
  "initial_state =
     \<lparr>g_platform_initialized = False, g_initialization_in_progress = False, pcs = (\<lambda>t. Idle)\<rparr>"

definition goto :: "thread \<Rightarrow> pc \<Rightarrow> init_state \<Rightarrow> init_state" where
  "goto t p s = s\<lparr>pcs := (pcs s)(t := p)\<rparr>"

text \<open>One step of thread \<open>t\<close> in \<^verbatim>\<open>initializePlatform()\<close>; the step of an idle thread is
  the call.\<close>

definition initializePlatform_step :: "thread \<Rightarrow> init_state \<Rightarrow> init_state" where
  "initializePlatform_step t s =
     (case pcs s t of
        Idle \<Rightarrow> goto t LoadDone s
      | LoadDone \<Rightarrow>
          if g_platform_initialized s then goto t Idle s else goto t CasInProgress s
      | CasInProgress \<Rightarrow>
          if \<not> g_initialization_in_progress s
          then goto t StoreDone (s\<lparr>g_initialization_in_progress := True\<rparr>)
          else goto t SpinWait s
      | SpinWait \<Rightarrow>
          if g_platform_initialized s then goto t Idle s else goto t SpinWait s
      | StoreDone \<Rightarrow> goto t ClearInProgress (s\<lparr>g_platform_initialized := True\<rparr>)
      | ClearInProgress \<Rightarrow> goto t Idle (s\<lparr>g_initialization_in_progress := False\<rparr>))"

text \<open>An execution under a schedule.\<close>

definition run :: "thread list \<Rightarrow> init_state \<Rightarrow> init_state" where
  "run schedule s = fold initializePlatform_step schedule s"

text \<open>\<^verbatim>\<open>isPlatformInitialized()\<close>\<close>

definition isPlatformInitialized :: "init_state \<Rightarrow> bool" where
  "isPlatformInitialized s = g_platform_initialized s"

text \<open>The step of \<open>t\<close> in \<open>s\<close> is a return from \<^verbatim>\<open>initializePlatform()\<close>.\<close>

definition returns :: "thread \<Rightarrow> init_state \<Rightarrow> bool" where
  "returns t s = (pcs s t \<noteq> Idle \<and> pcs (initializePlatform_step t s) t = Idle)"

text \<open>The number of steps of an execution at which the done flag changes from false to
  true.\<close>

fun done_transitions :: "thread list \<Rightarrow> init_state \<Rightarrow> nat" where
  "done_transitions [] s = 0"
| "done_transitions (t # ts) s =
     (if \<not> g_platform_initialized s \<and> g_platform_initialized (initializePlatform_step t s)
      then 1 else 0)
     + done_transitions ts (initializePlatform_step t s)"

text \<open>A thread that is about to clear the in-progress flag has stored the done flag.\<close>

definition stored_before_clear :: "init_state \<Rightarrow> bool" where
  "stored_before_clear s = (\<forall>t. pcs s t = ClearInProgress \<longrightarrow> g_platform_initialized s)"

text \<open>Some thread is at the program counter \<open>p\<close>.\<close>

definition some_thread_at :: "init_state \<Rightarrow> pc \<Rightarrow> bool" where
  "some_thread_at s p = (\<exists>u. pcs s u = p)"

text \<open>While the in-progress flag is set, some thread has won the compare-exchange and not
  yet cleared the flag; while a thread waits and the done flag is not set, some thread is
  about to set it.\<close>

definition winner_present :: "init_state \<Rightarrow> bool" where
  "winner_present s =
     ((g_initialization_in_progress s \<longrightarrow>
         some_thread_at s StoreDone \<or> some_thread_at s ClearInProgress)
    \<and> (some_thread_at s SpinWait \<and> \<not> g_platform_initialized s \<longrightarrow> some_thread_at s StoreDone))"

section \<open>Properties of compiler.hpp\<close>

lemma c_div_nonneg: "0 \<le> a \<Longrightarrow> 0 < b \<Longrightarrow> c_div a b = a div b"
  by (cases "a = 0") (simp_all add: c_div_def)

lemma c_mod_nonneg: "0 \<le> a \<Longrightarrow> 0 < b \<Longrightarrow> c_mod a b = a mod b"
  by (simp add: c_mod_def c_div_nonneg minus_mult_div_eq_mod)

lemma c_div_neg: "a < 0 \<Longrightarrow> 0 < b \<Longrightarrow> c_div a b = - ((- a) div b)"
  by (simp add: c_div_def)

lemma c_mod_neg: "a < 0 \<Longrightarrow> 0 < b \<Longrightarrow> c_mod a b = - ((- a) mod b)"
  by (simp add: c_mod_def c_div_neg algebra_simps minus_mult_div_eq_mod [symmetric])

text \<open>Truncating division and remainder by a positive number give a result between 0 and
  the dividend.\<close>

lemma c_div_between:
  assumes "0 < b"
  shows "(0 \<le> a \<longrightarrow> 0 \<le> c_div a b \<and> c_div a b \<le> a) \<and> (a \<le> 0 \<longrightarrow> a \<le> c_div a b \<and> c_div a b \<le> 0)"
proof (cases "0 \<le> a")
  case True
  have "a div b \<le> a div 1"
    using True assms by (intro zdiv_mono2) simp_all
  with True assms show ?thesis
    by (cases "a = 0") (simp_all add: c_div_nonneg pos_imp_zdiv_nonneg_iff)
next
  case False
  then have neg: "a < 0" by simp
  have "(- a) div b \<le> (- a) div 1"
    using neg assms by (intro zdiv_mono2) simp_all
  moreover have "0 \<le> (- a) div b"
    using neg assms by (simp add: pos_imp_zdiv_nonneg_iff)
  ultimately show ?thesis
    using neg assms by (simp add: c_div_neg)
qed

lemma c_mod_between:
  assumes "0 < b"
  shows "(0 \<le> a \<longrightarrow> 0 \<le> c_mod a b \<and> c_mod a b \<le> a) \<and> (a \<le> 0 \<longrightarrow> a \<le> c_mod a b \<and> c_mod a b \<le> 0)"
proof (cases "0 \<le> a")
  case True
  have "a mod b \<le> a"
    using True assms by (simp add: zmod_le_nonneg_dividend)
  with True assms show ?thesis
    by (cases "a = 0") (simp_all add: c_mod_nonneg)
next
  case False
  then have neg: "a < 0" by simp
  have "(- a) mod b \<le> - a"
    using neg assms by (simp add: zmod_le_nonneg_dividend)
  moreover have "0 \<le> (- a) mod b"
    using assms by simp
  ultimately show ?thesis
    using neg assms by (simp add: c_mod_neg)
qed

lemma int_range_between:
  assumes "int_range env a"
    and "(0 \<le> a \<longrightarrow> 0 \<le> x \<and> x \<le> a) \<and> (a \<le> 0 \<longrightarrow> a \<le> x \<and> x \<le> 0)"
  shows "int_range env x"
proof -
  have "- (2 ^ (int_bits env - 1)) \<le> (0 :: int)" "(0 :: int) < 2 ^ (int_bits env - 1)"
    by simp_all
  with assms show ?thesis
    unfolding int_range_def by (cases "0 \<le> a") auto
qed

lemma to_int_in_range: "int_range env v \<Longrightarrow> to_int env v = v"
  by (simp add: to_int_def int_range_def signed_take_bit_int_eq_self)

lemma to_long_in_range: "long_range env v \<Longrightarrow> to_long env v = v"
  by (simp add: to_long_def long_range_def signed_take_bit_int_eq_self)

lemma to_int_0 [simp]: "to_int env 0 = 0"
  by (simp add: to_int_def)

lemma to_int_digit_split:
  assumes "int_range env m"
  shows "to_int env (c_div m 100) = c_div m 100"
    and "to_int env (c_div (c_mod m 100) 10) = c_div (c_mod m 100) 10"
    and "to_int env (c_mod m 10) = c_mod m 10"
proof -
  have d: "int_range env (c_div m 100)"
    using assms c_div_between [of 100 m] by (rule int_range_between) simp
  have r: "int_range env (c_mod m 100)"
    using assms c_mod_between [of 100 m] by (rule int_range_between) simp
  have rd: "int_range env (c_div (c_mod m 100) 10)"
    using r c_div_between [of 10 "c_mod m 100"] by (rule int_range_between) simp
  have r10: "int_range env (c_mod m 10)"
    using assms c_mod_between [of 10 m] by (rule int_range_between) simp
  show "to_int env (c_div m 100) = c_div m 100"
    and "to_int env (c_div (c_mod m 100) 10) = c_div (c_mod m 100) 10"
    and "to_int env (c_mod m 10) = c_mod m 10"
    using d rd r10 by (simp_all add: to_int_in_range)
qed

lemma to_int_msvc_table:
  assumes "int_range env m" and "1900 \<le> m"
  shows "to_int env 19 = 19" and "to_int env 4 = 4" and "to_int env 3 = 3"
    and "to_int env 2 = 2" and "to_int env 1 = 1"
    and "b \<le> m \<Longrightarrow> 0 \<le> b \<Longrightarrow> to_int env (m - b) = m - b"
proof -
  have small: "int_range env x" if "0 \<le> x" "x \<le> m" for x
    using assms(1) by (rule int_range_between) (use that assms(2) in auto)
  show "to_int env 19 = 19" and "to_int env 4 = 4" and "to_int env 3 = 3"
    and "to_int env 2 = 2" and "to_int env 1 = 1"
    using assms(2) by (simp_all add: small to_int_in_range)
  show "to_int env (m - b) = m - b" if "b \<le> m" "0 \<le> b"
    using that by (simp add: small to_int_in_range)
qed

lemmas CompilerVersion_ops =
  CompilerVersion_ge_def CompilerVersion_lt_def CompilerVersion_eq_def
  CompilerVersion_ne_def CompilerVersion_gt_def CompilerVersion_le_def

text \<open>
  Claim C5.  The six comparison operators of \<open>CompilerVersion\<close> describe one strict total
  order, the lexicographic order on (major, minor, patch): for all triples exactly one of
  \<open>a < b\<close>, \<open>a == b\<close>, \<open>a > b\<close> holds; \<open>a >= b\<close> is the negation of \<open>a < b\<close>; \<open>a <= b\<close> is
  \<open>a < b\<close> or \<open>a == b\<close>; \<open>a != b\<close> is the negation of \<open>a == b\<close>; each of the four order
  operators is transitive; \<open>==\<close> is equality of the triples; and
  \<open>{10,2,1} > {10,2,0}\<close>, \<open>{10,2,1} == {10,2,1}\<close>, \<open>{9,5,2} < {10,2,1}\<close>.
\<close>

theorem CompilerVersion_strict_total_order:
  fixes a b c :: CompilerVersion
  shows "((CompilerVersion_lt a b \<and> \<not> CompilerVersion_eq a b \<and> \<not> CompilerVersion_gt a b)
        \<or> (\<not> CompilerVersion_lt a b \<and> CompilerVersion_eq a b \<and> \<not> CompilerVersion_gt a b)
        \<or> (\<not> CompilerVersion_lt a b \<and> \<not> CompilerVersion_eq a b \<and> CompilerVersion_gt a b))
    \<and> (CompilerVersion_ge a b \<longleftrightarrow> \<not> CompilerVersion_lt a b)
    \<and> (CompilerVersion_le a b \<longleftrightarrow> CompilerVersion_lt a b \<or> CompilerVersion_eq a b)
    \<and> (CompilerVersion_ne a b \<longleftrightarrow> \<not> CompilerVersion_eq a b)
    \<and> (CompilerVersion_gt a b \<longleftrightarrow> CompilerVersion_lt b a)
    \<and> (CompilerVersion_eq a b \<longleftrightarrow> a = b)
    \<and> (CompilerVersion_lt a b \<longleftrightarrow>
           major a < major b
         \<or> (major a = major b \<and> (minor a < minor b \<or> (minor a = minor b \<and> patch a < patch b))))
    \<and> (CompilerVersion_lt a b \<and> CompilerVersion_lt b c \<longrightarrow> CompilerVersion_lt a c)
    \<and> (CompilerVersion_le a b \<and> CompilerVersion_le b c \<longrightarrow> CompilerVersion_le a c)
    \<and> (CompilerVersion_gt a b \<and> CompilerVersion_gt b c \<longrightarrow> CompilerVersion_gt a c)
    \<and> (CompilerVersion_ge a b \<and> CompilerVersion_ge b c \<longrightarrow> CompilerVersion_ge a c)
    \<and> CompilerVersion_gt \<lparr>major = 10, minor = 2, patch = 1\<rparr> \<lparr>major = 10, minor = 2, patch = 0\<rparr>
    \<and> CompilerVersion_eq \<lparr>major = 10, minor = 2, patch = 1\<rparr> \<lparr>major = 10, minor = 2, patch = 1\<rparr>
    \<and> CompilerVersion_lt \<lparr>major = 9, minor = 5, patch = 2\<rparr> \<lparr>major = 10, minor = 2, patch = 1\<rparr>"
  by (auto simp: CompilerVersion_ops split: if_splits)

theorem CompilerVersion_strict_total_order_witness:
  "CompilerVersion_lt \<lparr>major = 9, minor = 5, patch = 2\<rparr> \<lparr>major = 10, minor = 2, patch = 0\<rparr>
   \<and> CompilerVersion_lt \<lparr>major = 10, minor = 2, patch = 0\<rparr> \<lparr>major = 10, minor = 2, patch = 1\<rparr>
   \<and> CompilerVersion_lt \<lparr>major = 9, minor = 5, patch = 2\<rparr> \<lparr>major = 10, minor = 2, patch = 1\<rparr>
   \<and> CompilerVersion_ge \<lparr>major = 10, minor = 2, patch = 1\<rparr> \<lparr>major = 9, minor = 5, patch = 2\<rparr>"
  using CompilerVersion_strict_total_order
    [of "\<lparr>major = 9, minor = 5, patch = 2\<rparr>" "\<lparr>major = 10, minor = 2, patch = 0\<rparr>"
        "\<lparr>major = 10, minor = 2, patch = 1\<rparr>"]
  by (simp add: CompilerVersion_ops)

text \<open>
  Claim C1.  \<open>getCompilerType\<close> resolves the vendor in a fixed order.  With an Intel signal
  (\<^verbatim>\<open>__INTEL_COMPILER\<close>, \<^verbatim>\<open>__ICL\<close>, \<^verbatim>\<open>__ICC\<close>) the result is \<open>intel_llvm\<close> when \<^verbatim>\<open>__clang__\<close> is
  defined too and \<open>intel_classic\<close> otherwise; else with \<^verbatim>\<open>__clang__\<close> it is \<open>clang\<close>; else with
  \<^verbatim>\<open>__GNUC__\<close> it is \<open>mingw\<close> when a MinGW signal is defined and \<open>gcc\<close> otherwise; else with
  \<^verbatim>\<open>_MSC_VER\<close> it is \<open>msvc\<close>; else \<open>unknown\<close>.  An environment that defines both
  \<^verbatim>\<open>__clang__\<close> and \<^verbatim>\<open>__GNUC__\<close> and no Intel signal is \<open>clang\<close>, not \<open>gcc\<close>.
\<close>

theorem getCompilerType_disambiguation_order:
  "(intel_signal env \<and> defined env ''__clang__'' \<longrightarrow> getCompilerType env = intel_llvm)
 \<and> (intel_signal env \<and> \<not> defined env ''__clang__'' \<longrightarrow> getCompilerType env = intel_classic)
 \<and> (\<not> intel_signal env \<and> defined env ''__clang__'' \<longrightarrow> getCompilerType env = clang)
 \<and> (\<not> intel_signal env \<and> \<not> defined env ''__clang__'' \<and> defined env ''__GNUC__'' \<and> mingw_signal env
      \<longrightarrow> getCompilerType env = mingw)
 \<and> (\<not> intel_signal env \<and> \<not> defined env ''__clang__'' \<and> defined env ''__GNUC__'' \<and> \<not> mingw_signal env
      \<longrightarrow> getCompilerType env = gcc)
 \<and> (\<not> intel_signal env \<and> \<not> defined env ''__clang__'' \<and> \<not> defined env ''__GNUC__''
      \<and> defined env ''_MSC_VER'' \<longrightarrow> getCompilerType env = msvc)
 \<and> (\<not> intel_signal env \<and> \<not> defined env ''__clang__'' \<and> \<not> defined env ''__GNUC__''
      \<and> \<not> defined env ''_MSC_VER'' \<longrightarrow> getCompilerType env = CompilerType.unknown)
 \<and> (defined env ''__clang__'' \<and> defined env ''__GNUC__'' \<and> \<not> intel_signal env
      \<longrightarrow> getCompilerType env = clang \<and> getCompilerType env \<noteq> gcc)"
  by (simp add: getCompilerType_def intel_signal_def mingw_signal_def)

theorem getCompilerType_disambiguation_order_witness:
  "getCompilerType
     \<lparr>macros = [(''__INTEL_COMPILER'', 2021), (''__clang__'', 1)], builtins = [], sizeof_void_ptr = 8, int_bits = 32, long_bits = 64\<rparr> = intel_llvm
 \<and> getCompilerType
     \<lparr>macros = [(''__ICC'', 1900), (''__GNUC__'', 9)], builtins = [], sizeof_void_ptr = 8, int_bits = 32, long_bits = 64\<rparr> = intel_classic
 \<and> getCompilerType
     \<lparr>macros = [(''__clang__'', 1), (''__GNUC__'', 4)], builtins = [], sizeof_void_ptr = 8, int_bits = 32, long_bits = 64\<rparr> = clang
 \<and> getCompilerType
     \<lparr>macros = [(''__GNUC__'', 13), (''__MINGW32__'', 1)], builtins = [], sizeof_void_ptr = 8, int_bits = 32, long_bits = 64\<rparr> = mingw
 \<and> getCompilerType
     \<lparr>macros = [(''__GNUC__'', 13)], builtins = [], sizeof_void_ptr = 8, int_bits = 32, long_bits = 64\<rparr> = gcc
 \<and> getCompilerType
     \<lparr>macros = [(''_MSC_VER'', 1935)], builtins = [], sizeof_void_ptr = 8, int_bits = 32, long_bits = 64\<rparr> = msvc
 \<and> getCompilerType
     \<lparr>macros = [], builtins = [], sizeof_void_ptr = 8, int_bits = 32, long_bits = 64\<rparr> = CompilerType.unknown"
  using getCompilerType_disambiguation_order
      [of "\<lparr>macros = [(''__INTEL_COMPILER'', 2021), (''__clang__'', 1)], builtins = [], sizeof_void_ptr = 8, int_bits = 32, long_bits = 64\<rparr>"]
    getCompilerType_disambiguation_order
      [of "\<lparr>macros = [(''__ICC'', 1900), (''__GNUC__'', 9)], builtins = [], sizeof_void_ptr = 8, int_bits = 32, long_bits = 64\<rparr>"]
    getCompilerType_disambiguation_order
      [of "\<lparr>macros = [(''__clang__'', 1), (''__GNUC__'', 4)], builtins = [], sizeof_void_ptr = 8, int_bits = 32, long_bits = 64\<rparr>"]
    getCompilerType_disambiguation_order
      [of "\<lparr>macros = [(''__GNUC__'', 13), (''__MINGW32__'', 1)], builtins = [], sizeof_void_ptr = 8, int_bits = 32, long_bits = 64\<rparr>"]
    getCompilerType_disambiguation_order
      [of "\<lparr>macros = [(''__GNUC__'', 13)], builtins = [], sizeof_void_ptr = 8, int_bits = 32, long_bits = 64\<rparr>"]
    getCompilerType_disambiguation_order
      [of "\<lparr>macros = [(''_MSC_VER'', 1935)], builtins = [], sizeof_void_ptr = 8, int_bits = 32, long_bits = 64\<rparr>"]
    getCompilerType_disambiguation_order
      [of "\<lparr>macros = [], builtins = [], sizeof_void_ptr = 8, int_bits = 32, long_bits = 64\<rparr>"]
  by (simp_all add: defined_def intel_signal_def mingw_signal_def)

text \<open>
  Claim C4 says that for every value \<open>m\<close> of \<^verbatim>\<open>_MSC_VER\<close> from 1940 on the version is
  (19, 4, m - 1940).  The constructor of \<open>CompilerVersion\<close> takes its arguments as \<^verbatim>\<open>int\<close>:
  with a 32-bit \<^verbatim>\<open>int\<close> and \<open>m = 2147485588\<close> the difference \<open>m - 1940\<close> is \<open>2147483648\<close>,
  which wraps around to the patch number \<open>- 2147483648\<close>.
\<close>

theorem getCompilerVersion_msvc_counterexample:
  "\<not> intel_signal
     \<lparr>macros = [(''_MSC_VER'', 2147485588)], builtins = [], sizeof_void_ptr = 8, int_bits = 32, long_bits = 32\<rparr>
 \<and> \<not> defined
     \<lparr>macros = [(''_MSC_VER'', 2147485588)], builtins = [], sizeof_void_ptr = 8, int_bits = 32, long_bits = 32\<rparr> ''__clang__''
 \<and> \<not> defined
     \<lparr>macros = [(''_MSC_VER'', 2147485588)], builtins = [], sizeof_void_ptr = 8, int_bits = 32, long_bits = 32\<rparr> ''__GNUC__''
 \<and> map_of (macros
     \<lparr>macros = [(''_MSC_VER'', 2147485588)], builtins = [], sizeof_void_ptr = 8, int_bits = 32, long_bits = 32\<rparr>) ''_MSC_VER'' = Some 2147485588
 \<and> getCompilerVersion
     \<lparr>macros = [(''_MSC_VER'', 2147485588)], builtins = [], sizeof_void_ptr = 8, int_bits = 32, long_bits = 32\<rparr> = \<lparr>major = 19, minor = 4, patch = - 2147483648\<rparr>
 \<and> getCompilerVersion
     \<lparr>macros = [(''_MSC_VER'', 2147485588)], builtins = [], sizeof_void_ptr = 8, int_bits = 32, long_bits = 32\<rparr> \<noteq> \<lparr>major = 19, minor = 4, patch = 2147485588 - 1940\<rparr>"
  by (simp add: intel_signal_def defined_def macro_value_def getCompilerVersion_def
      mkCompilerVersion_def to_int_def signed_take_bit_eq_take_bit_shift take_bit_eq_mod)

text \<open>
  Claim C4, amended.  With no Intel, Clang or GCC signal and \<^verbatim>\<open>_MSC_VER\<close> defined as a
  value \<open>m\<close> of the type \<^verbatim>\<open>int\<close>, \<open>getCompilerVersion\<close> is (19, 4, m - 1940) from 1940 on,
  (19, 3, m - 1930) from 1930 on, (19, 2, m - 1920) from 1920 on, (19, 1, m - 1910) from
  1910 on, (19, 0, m - 1900) from 1900 on, and below 1900 the digit split
  (m / 100, (m % 100) / 10, m % 10), in the truncating arithmetic of C++, which on a
  non-negative \<open>m\<close> is \<open>div\<close> and \<open>mod\<close>.  When \<open>getCompilerType\<close> recognises no vendor, the
  version is (0, 0, 0).
\<close>

theorem getCompilerVersion_msvc:
  "(\<not> intel_signal env \<and> \<not> defined env ''__clang__'' \<and> \<not> defined env ''__GNUC__''
      \<and> map_of (macros env) ''_MSC_VER'' = Some m \<and> int_range env m \<longrightarrow>
      getCompilerVersion env =
        (if m \<ge> 1940 then \<lparr>major = 19, minor = 4, patch = m - 1940\<rparr>
         else if m \<ge> 1930 then \<lparr>major = 19, minor = 3, patch = m - 1930\<rparr>
         else if m \<ge> 1920 then \<lparr>major = 19, minor = 2, patch = m - 1920\<rparr>
         else if m \<ge> 1910 then \<lparr>major = 19, minor = 1, patch = m - 1910\<rparr>
         else if m \<ge> 1900 then \<lparr>major = 19, minor = 0, patch = m - 1900\<rparr>
         else \<lparr>major = c_div m 100, minor = c_div (c_mod m 100) 10, patch = c_mod m 10\<rparr>)
    \<and> (0 \<le> m \<and> m < 1900 \<longrightarrow>
         getCompilerVersion env =
           \<lparr>major = m div 100, minor = (m mod 100) div 10, patch = m mod 10\<rparr>))
 \<and> (getCompilerType env = CompilerType.unknown \<longrightarrow>
      getCompilerVersion env = \<lparr>major = 0, minor = 0, patch = 0\<rparr>)"
proof -
  have table: "getCompilerVersion env =
        (if m \<ge> 1940 then \<lparr>major = 19, minor = 4, patch = m - 1940\<rparr>
         else if m \<ge> 1930 then \<lparr>major = 19, minor = 3, patch = m - 1930\<rparr>
         else if m \<ge> 1920 then \<lparr>major = 19, minor = 2, patch = m - 1920\<rparr>
         else if m \<ge> 1910 then \<lparr>major = 19, minor = 1, patch = m - 1910\<rparr>
         else if m \<ge> 1900 then \<lparr>major = 19, minor = 0, patch = m - 1900\<rparr>
         else \<lparr>major = c_div m 100, minor = c_div (c_mod m 100) 10, patch = c_mod m 10\<rparr>)"
    if sig: "\<not> intel_signal env" "\<not> defined env ''__clang__''" "\<not> defined env ''__GNUC__''"
      and m: "map_of (macros env) ''_MSC_VER'' = Some m" and range: "int_range env m"
  proof -
    have v: "macro_value env ''_MSC_VER'' = m" "defined env ''_MSC_VER''"
      using m by (simp_all add: macro_value_def defined_def)
    have branch: "\<not> defined env ''__INTEL_COMPILER''"
      using sig(1) by (simp add: intel_signal_def)
    show ?thesis
    proof (cases "1900 \<le> m")
      case True
      then show ?thesis
        using branch sig(2,3) v to_int_msvc_table [OF range True]
        by (simp add: getCompilerVersion_def mkCompilerVersion_def)
    next
      case False
      then show ?thesis
        using branch sig(2,3) v to_int_digit_split [OF range]
        by (simp add: getCompilerVersion_def mkCompilerVersion_def)
    qed
  qed
  have none: "getCompilerVersion env = \<lparr>major = 0, minor = 0, patch = 0\<rparr>"
    if "getCompilerType env = CompilerType.unknown"
    using that
    by (simp add: getCompilerVersion_def getCompilerType_def mkCompilerVersion_def
        split: if_splits)
  show ?thesis
    using table none by (auto simp add: c_div_nonneg c_mod_nonneg)
qed

theorem getCompilerVersion_msvc_witness:
  "getCompilerVersion
     \<lparr>macros = [(''_MSC_VER'', 1945)], builtins = [], sizeof_void_ptr = 8, int_bits = 32, long_bits = 32\<rparr> = \<lparr>major = 19, minor = 4, patch = 5\<rparr>
 \<and> getCompilerVersion
     \<lparr>macros = [(''_MSC_VER'', 1935)], builtins = [], sizeof_void_ptr = 8, int_bits = 32, long_bits = 32\<rparr> = \<lparr>major = 19, minor = 3, patch = 5\<rparr>
 \<and> getCompilerVersion
     \<lparr>macros = [(''_MSC_VER'', 1929)], builtins = [], sizeof_void_ptr = 8, int_bits = 32, long_bits = 32\<rparr> = \<lparr>major = 19, minor = 2, patch = 9\<rparr>
 \<and> getCompilerVersion
     \<lparr>macros = [(''_MSC_VER'', 1916)], builtins = [], sizeof_void_ptr = 8, int_bits = 32, long_bits = 32\<rparr> = \<lparr>major = 19, minor = 1, patch = 6\<rparr>
 \<and> getCompilerVersion
     \<lparr>macros = [(''_MSC_VER'', 1900)], builtins = [], sizeof_void_ptr = 8, int_bits = 32, long_bits = 32\<rparr> = \<lparr>major = 19, minor = 0, patch = 0\<rparr>
 \<and> getCompilerVersion
     \<lparr>macros = [(''_MSC_VER'', 1800)], builtins = [], sizeof_void_ptr = 8, int_bits = 32, long_bits = 32\<rparr> = \<lparr>major = 18, minor = 0, patch = 0\<rparr>
 \<and> getCompilerType \<lparr>macros = [], builtins = [], sizeof_void_ptr = 8, int_bits = 32, long_bits = 64\<rparr> = CompilerType.unknown
 \<and> getCompilerVersion \<lparr>macros = [], builtins = [], sizeof_void_ptr = 8, int_bits = 32, long_bits = 64\<rparr> = \<lparr>major = 0, minor = 0, patch = 0\<rparr>"
  using getCompilerVersion_msvc
      [of "\<lparr>macros = [(''_MSC_VER'', 1945)], builtins = [], sizeof_void_ptr = 8, int_bits = 32, long_bits = 32\<rparr>" 1945]
    getCompilerVersion_msvc
      [of "\<lparr>macros = [(''_MSC_VER'', 1935)], builtins = [], sizeof_void_ptr = 8, int_bits = 32, long_bits = 32\<rparr>" 1935]
    getCompilerVersion_msvc
      [of "\<lparr>macros = [(''_MSC_VER'', 1929)], builtins = [], sizeof_void_ptr = 8, int_bits = 32, long_bits = 32\<rparr>" 1929]
    getCompilerVersion_msvc
      [of "\<lparr>macros = [(''_MSC_VER'', 1916)], builtins = [], sizeof_void_ptr = 8, int_bits = 32, long_bits = 32\<rparr>" 1916]
    getCompilerVersion_msvc
      [of "\<lparr>macros = [(''_MSC_VER'', 1900)], builtins = [], sizeof_void_ptr = 8, int_bits = 32, long_bits = 32\<rparr>" 1900]
    getCompilerVersion_msvc
      [of "\<lparr>macros = [(''_MSC_VER'', 1800)], builtins = [], sizeof_void_ptr = 8, int_bits = 32, long_bits = 32\<rparr>" 1800]
    getCompilerVersion_msvc [of "\<lparr>macros = [], builtins = [], sizeof_void_ptr = 8, int_bits = 32, long_bits = 64\<rparr>" 0]
  by (simp_all add: intel_signal_def defined_def getCompilerType_def int_range_def c_div_def
      c_mod_def)

section \<open>Properties of cpp_standard.hpp\<close>

text \<open>
  Claim C2 says that for every value \<open>v\<close> of the language-version signal from 202600 on
  the standard is \<open>cpp_26\<close>.  The code stores the signal in a \<^verbatim>\<open>long\<close> before it compares:
  with a 64-bit \<^verbatim>\<open>long\<close> the value \<open>9223372036854775808\<close> wraps around to a negative
  number, and the standard is \<open>cpp_unknown\<close>.
\<close>

theorem getCppStandard_counterexample:
  "\<not> defined
     \<lparr>macros = [(''__cplusplus'', 9223372036854775808)], builtins = [], sizeof_void_ptr = 8, int_bits = 32, long_bits = 64\<rparr> ''_MSVC_LANG''
 \<and> defined
     \<lparr>macros = [(''__cplusplus'', 9223372036854775808)], builtins = [], sizeof_void_ptr = 8, int_bits = 32, long_bits = 64\<rparr> ''__cplusplus''
 \<and> macro_value
     \<lparr>macros = [(''__cplusplus'', 9223372036854775808)], builtins = [], sizeof_void_ptr = 8, int_bits = 32, long_bits = 64\<rparr> ''__cplusplus'' \<ge> 202600
 \<and> getCppStandard
     \<lparr>macros = [(''__cplusplus'', 9223372036854775808)], builtins = [], sizeof_void_ptr = 8, int_bits = 32, long_bits = 64\<rparr> = cpp_unknown"
  by (simp add: defined_def macro_value_def getCppStandard_def detectCppStandard_def to_long_def
      signed_take_bit_eq_take_bit_shift take_bit_eq_mod)

text \<open>
  Claim C2, amended.  Let \<open>v\<close> be the language-version signal: \<^verbatim>\<open>_MSVC_LANG\<close> when defined,
  else \<^verbatim>\<open>__cplusplus\<close> when defined, else 0.  If \<open>v\<close> is a value of the type \<^verbatim>\<open>long\<close>, then
  \<open>getCppStandard\<close> is \<open>cpp_26\<close> for \<open>v \<ge> 202600\<close>, else \<open>cpp_23\<close> for \<open>v \<ge> 202302\<close>, else
  \<open>cpp_20\<close> for \<open>v \<ge> 202002\<close>, else \<open>cpp_17\<close> for \<open>v \<ge> 201703\<close>, else \<open>cpp_pre_17\<close> for
  \<open>v \<ge> 199711\<close>, else \<open>cpp_unknown\<close>.
\<close>

theorem getCppStandard_thresholds:
  "v = (if defined env ''_MSVC_LANG'' then macro_value env ''_MSVC_LANG''
        else if defined env ''__cplusplus'' then macro_value env ''__cplusplus'' else 0)
   \<Longrightarrow> long_range env v
   \<Longrightarrow> getCppStandard env =
       (if v \<ge> 202600 then cpp_26
        else if v \<ge> 202302 then cpp_23
        else if v \<ge> 202002 then cpp_20
        else if v \<ge> 201703 then cpp_17
        else if v \<ge> 199711 then cpp_pre_17
        else cpp_unknown)"
  using to_long_in_range [of env v]
  by (simp add: getCppStandard_def detectCppStandard_def Let_def)

theorem getCppStandard_thresholds_witness:
  "getCppStandard
     \<lparr>macros = [(''__cplusplus'', 199711), (''_MSVC_LANG'', 202002)], builtins = [], sizeof_void_ptr = 8, int_bits = 32, long_bits = 32\<rparr> = cpp_20
 \<and> getCppStandard
     \<lparr>macros = [(''__cplusplus'', 202600)], builtins = [], sizeof_void_ptr = 8, int_bits = 32, long_bits = 64\<rparr> = cpp_26
 \<and> getCppStandard
     \<lparr>macros = [(''__cplusplus'', 202302)], builtins = [], sizeof_void_ptr = 8, int_bits = 32, long_bits = 64\<rparr> = cpp_23
 \<and> getCppStandard
     \<lparr>macros = [(''__cplusplus'', 201703)], builtins = [], sizeof_void_ptr = 8, int_bits = 32, long_bits = 64\<rparr> = cpp_17
 \<and> getCppStandard
     \<lparr>macros = [(''__cplusplus'', 201402)], builtins = [], sizeof_void_ptr = 8, int_bits = 32, long_bits = 64\<rparr> = cpp_pre_17
 \<and> getCppStandard
     \<lparr>macros = [], builtins = [], sizeof_void_ptr = 8, int_bits = 32, long_bits = 64\<rparr> = cpp_unknown"
  using getCppStandard_thresholds
      [of 202002 "\<lparr>macros = [(''__cplusplus'', 199711), (''_MSVC_LANG'', 202002)], builtins = [], sizeof_void_ptr = 8, int_bits = 32, long_bits = 32\<rparr>"]
    getCppStandard_thresholds
      [of 202600 "\<lparr>macros = [(''__cplusplus'', 202600)], builtins = [], sizeof_void_ptr = 8, int_bits = 32, long_bits = 64\<rparr>"]
    getCppStandard_thresholds
      [of 202302 "\<lparr>macros = [(''__cplusplus'', 202302)], builtins = [], sizeof_void_ptr = 8, int_bits = 32, long_bits = 64\<rparr>"]
    getCppStandard_thresholds
      [of 201703 "\<lparr>macros = [(''__cplusplus'', 201703)], builtins = [], sizeof_void_ptr = 8, int_bits = 32, long_bits = 64\<rparr>"]
    getCppStandard_thresholds
      [of 201402 "\<lparr>macros = [(''__cplusplus'', 201402)], builtins = [], sizeof_void_ptr = 8, int_bits = 32, long_bits = 64\<rparr>"]
    getCppStandard_thresholds
      [of 0 "\<lparr>macros = [], builtins = [], sizeof_void_ptr = 8, int_bits = 32, long_bits = 64\<rparr>"]
  by (simp_all add: defined_def macro_value_def long_range_def)

text \<open>
  Claim C3 says that every C++20 feature function, modules included, returns true when
  no feature-specific signal exists and the detected standard is at least C++20.
  \<open>hasModules\<close> does not: without \<^verbatim>\<open>__cpp_modules\<close> it returns false whatever the standard,
  here in a C++20 environment.
\<close>

theorem hasModules_counterexample:
  "\<not> defined \<lparr>macros = [(''__cplusplus'', 202002)], builtins = [], sizeof_void_ptr = 8, int_bits = 32, long_bits = 64\<rparr> ''__cpp_modules''
 \<and> CppStandard_ge (getCppStandard \<lparr>macros = [(''__cplusplus'', 202002)], builtins = [], sizeof_void_ptr = 8, int_bits = 32, long_bits = 64\<rparr>) cpp_20
 \<and> \<not> hasModules \<lparr>macros = [(''__cplusplus'', 202002)], builtins = [], sizeof_void_ptr = 8, int_bits = 32, long_bits = 64\<rparr>"
  by (simp add: defined_def macro_value_def hasModules_def CppStandard_ge_def getCppStandard_def
      detectCppStandard_def to_long_in_range long_range_def)

text \<open>
  Claim C3, amended.  For concepts, coroutines, ranges, consteval, constinit, designated
  initializers and three-way comparison, in an environment without the feature's own
  test signal, the feature function is true when the detected standard is at least
  C++20 and false when it is exactly C++17.  \<open>hasModules\<close> is false in every environment
  without \<^verbatim>\<open>__cpp_modules\<close>.
\<close>

theorem cpp20_features_follow_standard:
  "(\<not> defined env ''__cpp_concepts'' \<longrightarrow>
      (CppStandard_ge (getCppStandard env) cpp_20 \<longrightarrow> hasConcepts env)
    \<and> (getCppStandard env = cpp_17 \<longrightarrow> \<not> hasConcepts env))
 \<and> (\<not> defined env ''__cpp_impl_coroutine'' \<and> \<not> defined env ''__cpp_coroutines'' \<longrightarrow>
      (CppStandard_ge (getCppStandard env) cpp_20 \<longrightarrow> hasCoroutines env)
    \<and> (getCppStandard env = cpp_17 \<longrightarrow> \<not> hasCoroutines env))
 \<and> (\<not> defined env ''__cpp_lib_ranges'' \<longrightarrow>
      (CppStandard_ge (getCppStandard env) cpp_20 \<longrightarrow> hasRanges env)
    \<and> (getCppStandard env = cpp_17 \<longrightarrow> \<not> hasRanges env))
 \<and> (\<not> defined env ''__cpp_consteval'' \<longrightarrow>
      (CppStandard_ge (getCppStandard env) cpp_20 \<longrightarrow> hasConsteval env)
    \<and> (getCppStandard env = cpp_17 \<longrightarrow> \<not> hasConsteval env))
 \<and> (\<not> defined env ''__cpp_constinit'' \<longrightarrow>
      (CppStandard_ge (getCppStandard env) cpp_20 \<longrightarrow> hasConstinit env)
    \<and> (getCppStandard env = cpp_17 \<longrightarrow> \<not> hasConstinit env))
 \<and> (\<not> defined env ''__cpp_designated_initializers'' \<longrightarrow>
      (CppStandard_ge (getCppStandard env) cpp_20 \<longrightarrow> hasDesignatedInitializers env)
    \<and> (getCppStandard env = cpp_17 \<longrightarrow> \<not> hasDesignatedInitializers env))
 \<and> (\<not> defined env ''__cpp_impl_three_way_comparison'' \<longrightarrow>
      (CppStandard_ge (getCppStandard env) cpp_20 \<longrightarrow> hasThreeWayComparison env)
    \<and> (getCppStandard env = cpp_17 \<longrightarrow> \<not> hasThreeWayComparison env))
 \<and> (\<not> defined env ''__cpp_modules'' \<longrightarrow> \<not> hasModules env)"
  by (simp add: hasConcepts_def hasCoroutines_def hasRanges_def hasConsteval_def hasConstinit_def
      hasDesignatedInitializers_def hasThreeWayComparison_def hasModules_def CppStandard_ge_def)

theorem cpp20_features_follow_standard_witness:
  "\<not> defined \<lparr>macros = [(''__cplusplus'', 202002)], builtins = [], sizeof_void_ptr = 8, int_bits = 32, long_bits = 64\<rparr> ''__cpp_concepts''
 \<and> CppStandard_ge (getCppStandard \<lparr>macros = [(''__cplusplus'', 202002)], builtins = [], sizeof_void_ptr = 8, int_bits = 32, long_bits = 64\<rparr>) cpp_20
 \<and> hasConcepts \<lparr>macros = [(''__cplusplus'', 202002)], builtins = [], sizeof_void_ptr = 8, int_bits = 32, long_bits = 64\<rparr>
 \<and> hasCoroutines \<lparr>macros = [(''__cplusplus'', 202002)], builtins = [], sizeof_void_ptr = 8, int_bits = 32, long_bits = 64\<rparr>
 \<and> \<not> hasModules \<lparr>macros = [(''__cplusplus'', 202002)], builtins = [], sizeof_void_ptr = 8, int_bits = 32, long_bits = 64\<rparr>
 \<and> getCppStandard \<lparr>macros = [(''__cplusplus'', 201703)], builtins = [], sizeof_void_ptr = 8, int_bits = 32, long_bits = 64\<rparr> = cpp_17
 \<and> \<not> hasConcepts \<lparr>macros = [(''__cplusplus'', 201703)], builtins = [], sizeof_void_ptr = 8, int_bits = 32, long_bits = 64\<rparr>
 \<and> \<not> hasThreeWayComparison \<lparr>macros = [(''__cplusplus'', 201703)], builtins = [], sizeof_void_ptr = 8, int_bits = 32, long_bits = 64\<rparr>"
  using cpp20_features_follow_standard
      [of "\<lparr>macros = [(''__cplusplus'', 202002)], builtins = [], sizeof_void_ptr = 8, int_bits = 32, long_bits = 64\<rparr>"]
    cpp20_features_follow_standard
      [of "\<lparr>macros = [(''__cplusplus'', 201703)], builtins = [], sizeof_void_ptr = 8, int_bits = 32, long_bits = 64\<rparr>"]
  by (simp_all add: defined_def macro_value_def CppStandard_ge_def getCppStandard_def
      detectCppStandard_def to_long_in_range long_range_def)

section \<open>Properties of architecture.hpp\<close>

text \<open>For every recognised architecture the pointer size is 32 or 64, and exactly one of
  \<open>is64Bit\<close> and \<open>is32Bit\<close> holds.\<close>

lemma pointer_size_recognised_architecture:
  assumes "getArchitectureInfo env = Some info"
    and "detectCpuArchitecture env \<noteq> CpuArchitecture.unknown"
  shows "architecture info = detectCpuArchitecture env"
    and "pointer_size_bits info = 32 \<or> pointer_size_bits info = 64"
    and "is64Bit info \<noteq> is32Bit info"
    and "is64Bit info \<longleftrightarrow>
           detectCpuArchitecture env \<in> {x86_64, arm_v8_64, mips_64, powerpc_64, risc_v_64, sparc_64}"
proof -
  have info: "architecture info = detectCpuArchitecture env"
    "pointer_size_bits info = pointer_size_of env (detectCpuArchitecture env)"
    using assms(1)
    by (auto simp add: getArchitectureInfo_def detectPointerSize_def split: option.splits)
  show "architecture info = detectCpuArchitecture env" by (rule info)
  show "pointer_size_bits info = 32 \<or> pointer_size_bits info = 64"
    using assms(2) info(2) by (cases "detectCpuArchitecture env") simp_all
  show "is64Bit info \<noteq> is32Bit info"
    using assms(2) info(2)
    by (cases "detectCpuArchitecture env") (simp_all add: is64Bit_def is32Bit_def)
  show "is64Bit info \<longleftrightarrow>
      detectCpuArchitecture env \<in> {x86_64, arm_v8_64, mips_64, powerpc_64, risc_v_64, sparc_64}"
    using assms(2) info(2)
    by (cases "detectCpuArchitecture env") (simp_all add: is64Bit_def)
qed


section \<open>Properties of endianness.hpp\<close>

subsection \<open>Byte swapping reverses the bytes\<close>

text \<open>The bits of a word put together from bytes, and of a word with its bytes reversed.\<close>

lemma bit_word_rcat_bytes:
  "bit (word_rcat (ws :: 8 word list) :: 'b::len word) n \<longleftrightarrow>
     n < LENGTH('b) \<and> n div 8 < length ws \<and> bit (rev ws ! (n div 8)) (n mod 8)"
  using bit_horner_sum_uint_exp_iff [of "rev ws" n]
  by (simp add: word_rcat_def bit_word_of_int_iff)

lemma bit_reverse_bytes:
  "bit (reverse_bytes k (x :: 'a::len word)) n \<longleftrightarrow>
     n < LENGTH('a) \<and> n div 8 < k \<and> bit x (8 * (k - 1 - n div 8) + n mod 8)"
  by (auto simp add: reverse_bytes_def bit_word_rcat_bytes rev_map rev_nth bit_simps
      dest: bit_imp_le_length)

lemma byte_masks32:
  "(0xFF000000 :: 32 word) = push_bit 24 (mask 8)"
  "(0x00FF0000 :: 32 word) = push_bit 16 (mask 8)"
  "(0x0000FF00 :: 32 word) = push_bit 8 (mask 8)"
  "(0x000000FF :: 32 word) = mask 8"
  by (simp_all add: mask_eq_exp_minus_1 push_bit_eq_mult)

lemma byte_masks64:
  "(0xFF00000000000000 :: 64 word) = push_bit 56 (mask 8)"
  "(0x00FF000000000000 :: 64 word) = push_bit 48 (mask 8)"
  "(0x0000FF0000000000 :: 64 word) = push_bit 40 (mask 8)"
  "(0x000000FF00000000 :: 64 word) = push_bit 32 (mask 8)"
  "(0x00000000FF000000 :: 64 word) = push_bit 24 (mask 8)"
  "(0x0000000000FF0000 :: 64 word) = push_bit 16 (mask 8)"
  "(0x000000000000FF00 :: 64 word) = push_bit 8 (mask 8)"
  "(0x00000000000000FF :: 64 word) = mask 8"
  by (simp_all add: mask_eq_exp_minus_1 push_bit_eq_mult)

lemma bit_byteSwap16_manual_byte:
  assumes "r < 8"
  shows "bit (byteSwap16_manual v) (8 * q + r) \<longleftrightarrow> q < 2 \<and> bit v (8 * (1 - q) + r)"
proof -
  consider "q = 0" | "q = 1" | "2 \<le> q" by linarith
  then show ?thesis
    by cases (use assms in \<open>auto simp add: byteSwap16_manual_def bit_simps dest: bit_imp_le_length\<close>)
qed

lemma bit_byteSwap32_manual_byte:
  assumes "r < 8"
  shows "bit (byteSwap32_manual v) (8 * q + r) \<longleftrightarrow> q < 4 \<and> bit v (8 * (3 - q) + r)"
proof -
  consider "q = 0" | "q = 1" | "q = 2" | "q = 3" | "4 \<le> q" by linarith
  then show ?thesis
    by cases (use assms in \<open>simp_all add: byteSwap32_manual_def byte_masks32 bit_simps\<close>)
qed

lemma bit_byteSwap64_manual_byte:
  assumes "r < 8"
  shows "bit (byteSwap64_manual v) (8 * q + r) \<longleftrightarrow> q < 8 \<and> bit v (8 * (7 - q) + r)"
proof -
  consider "q = 0" | "q = 1" | "q = 2" | "q = 3" | "q = 4" | "q = 5" | "q = 6" | "q = 7" | "8 \<le> q"
    by linarith
  then show ?thesis
    by cases (use assms in \<open>simp_all add: byteSwap64_manual_def byte_masks64 bit_simps\<close>)
qed

lemma bit_reverse_bytes_byte:
  assumes "r < 8"
  shows "bit (reverse_bytes k (x :: 'a::len word)) (8 * q + r) \<longleftrightarrow>
     8 * q + r < LENGTH('a) \<and> q < k \<and> bit x (8 * (k - 1 - q) + r)"
  using assms by (simp add: bit_reverse_bytes)

lemma word_eq_bytewise:
  fixes x y :: "'a::len word"
  assumes "\<And>q r. r < 8 \<Longrightarrow> bit x (8 * q + r) = bit y (8 * q + r)"
  shows "x = y"
proof (rule bit_word_eqI)
  fix n
  have "bit x (8 * (n div 8) + n mod 8) = bit y (8 * (n div 8) + n mod 8)"
    by (rule assms) simp
  then show "bit x n = bit y n" by simp
qed

lemma byteSwap16_manual_eq: "byteSwap16_manual v = reverse_bytes 2 v"
  by (rule word_eq_bytewise) (auto simp add: bit_byteSwap16_manual_byte bit_reverse_bytes_byte)

lemma byteSwap32_manual_eq: "byteSwap32_manual v = reverse_bytes 4 v"
  by (rule word_eq_bytewise) (auto simp add: bit_byteSwap32_manual_byte bit_reverse_bytes_byte)

lemma byteSwap64_manual_eq: "byteSwap64_manual v = reverse_bytes 8 v"
  by (rule word_eq_bytewise) (auto simp add: bit_byteSwap64_manual_byte bit_reverse_bytes_byte)

lemma reverse_bytes_involution:
  fixes x :: "'a::len word"
  assumes "LENGTH('a) = 8 * k"
  shows "reverse_bytes k (reverse_bytes k x) = x"
proof (rule word_eq_bytewise)
  fix q r :: nat
  assume r: "r < 8"
  show "bit (reverse_bytes k (reverse_bytes k x)) (8 * q + r) = bit x (8 * q + r)"
  proof (cases "q < k")
    case True
    then have "8 * (k - 1 - q) + r < 8 * k" "k - 1 - (k - 1 - q) = q" "k - 1 - q < k"
      using r by auto
    then show ?thesis
      using True r assms by (simp add: bit_reverse_bytes_byte)
  next
    case False
    then have "\<not> 8 * q + r < LENGTH('a)" using assms by simp
    then show ?thesis
      using False by (auto simp add: bit_reverse_bytes_byte r dest: bit_imp_le_length)
  qed
qed

lemma byteSwap16_eq: "byteSwap16 env v = reverse_bytes 2 v"
  by (simp add: byteSwap16_def byteSwap16Impl_def builtin_bswap16_def byteSwap16_manual_eq)

lemma byteSwap32_eq: "byteSwap32 env v = reverse_bytes 4 v"
  by (simp add: byteSwap32_def byteSwap32Impl_def builtin_bswap32_def byteSwap32_manual_eq)

lemma byteSwap64_eq: "byteSwap64 env v = reverse_bytes 8 v"
  by (simp add: byteSwap64_def byteSwap64Impl_def builtin_bswap64_def byteSwap64_manual_eq)

text \<open>
  Claim C8.  Byte swapping is an involution: \<open>byteSwap16\<close>, \<open>byteSwap32\<close> and \<open>byteSwap64\<close>
  applied twice return their argument, for every value and in every build environment
  (with the manual implementation or with the intrinsic), and so does the generic
  \<open>byteSwap\<close> on a value of every integral type of at most 64 bits.  Moreover
  \<open>byteSwap16 0x1234 = 0x3412\<close>, \<open>byteSwap32 0x12345678 = 0x78563412\<close> and
  \<open>byteSwap64 0x123456789ABCDEF0 = 0xF0DEBC9A78563412\<close>.
\<close>

theorem byteSwap_involution:
  "byteSwap16 env (byteSwap16 env v16) = v16
 \<and> byteSwap32 env (byteSwap32 env v32) = v32
 \<and> byteSwap64 env (byteSwap64 env v64) = v64
 \<and> byteSwap env (byteSwap env x) = x
 \<and> byteSwap16 env 0x1234 = 0x3412
 \<and> byteSwap32 env 0x12345678 = 0x78563412
 \<and> byteSwap64 env 0x123456789ABCDEF0 = 0xF0DEBC9A78563412"
proof -
  have i16: "byteSwap16 env (byteSwap16 env w) = w" for w
    by (simp add: byteSwap16_eq reverse_bytes_involution)
  have i32: "byteSwap32 env (byteSwap32 env w) = w" for w
    by (simp add: byteSwap32_eq reverse_bytes_involution)
  have i64: "byteSwap64 env (byteSwap64 env w) = w" for w
    by (simp add: byteSwap64_eq reverse_bytes_involution)
  have gen: "byteSwap env (byteSwap env x) = x"
    by (cases x) (simp_all add: i16 i32 i64)
  have c16: "byteSwap16 env 0x1234 = 0x3412"
    by (simp add: byteSwap16_eq flip: byteSwap16_manual_eq) (simp add: byteSwap16_manual_def)
  have c32: "byteSwap32 env 0x12345678 = 0x78563412"
    by (simp add: byteSwap32_eq flip: byteSwap32_manual_eq) (simp add: byteSwap32_manual_def)
  have c64: "byteSwap64 env 0x123456789ABCDEF0 = 0xF0DEBC9A78563412"
    by (simp add: byteSwap64_eq flip: byteSwap64_manual_eq) (simp add: byteSwap64_manual_def)
  show ?thesis
    using i16 i32 i64 gen c16 c32 c64 by simp
qed

text \<open>
  Claim C10.  An unknown byte order is compatible with every byte order: when \<open>o1\<close> or
  \<open>o2\<close> is unknown, \<open>areByteOrdersCompatible o1 o2\<close> holds and \<open>convertByteOrder\<close> returns
  its argument unchanged, for a value of every integral type; and \<open>needsByteSwap\<close> is
  false whenever the native order of the \<open>EndiannessInfo\<close> or the target order is unknown.
\<close>

theorem unknown_byte_order_compatible:
  "(o1 = ByteOrder.unknown \<or> o2 = ByteOrder.unknown \<longrightarrow>
      areByteOrdersCompatible o1 o2 \<and> convertByteOrder env v o1 o2 = v)
 \<and> (EndiannessInfo.byte_order info = ByteOrder.unknown \<or> target = ByteOrder.unknown \<longrightarrow>
      \<not> needsByteSwap info target)"
  by (simp add: areByteOrdersCompatible_def convertByteOrder_def needsByteSwap_def)

theorem unknown_byte_order_compatible_witness:
  "areByteOrdersCompatible ByteOrder.unknown big_endian
 \<and> convertByteOrder \<lparr>macros = [], builtins = [], sizeof_void_ptr = 8, int_bits = 32, long_bits = 64\<rparr>
      (Int32 0x12345678) ByteOrder.unknown big_endian = Int32 0x12345678
 \<and> \<not> needsByteSwap \<lparr>EndiannessInfo.byte_order = little_endian, is_little_endian = True, is_big_endian = False\<rparr>
      ByteOrder.unknown"
  using unknown_byte_order_compatible
    [of ByteOrder.unknown big_endian
        "\<lparr>macros = [], builtins = [], sizeof_void_ptr = 8, int_bits = 32, long_bits = 64\<rparr>"
        "Int32 0x12345678"
        "\<lparr>EndiannessInfo.byte_order = little_endian, is_little_endian = True, is_big_endian = False\<rparr>"
        ByteOrder.unknown]
  by simp

section \<open>Properties of features.hpp\<close>

lemma checkCpuFeature_bit:
  "compiler_has_cpuid env \<Longrightarrow>
   checkCpuFeature env cpu leaf subleaf reg b =
     bit ([eax (cpu leaf subleaf), ebx (cpu leaf subleaf), ecx (cpu leaf subleaf),
           edx (cpu leaf subleaf)] ! reg) b"
  by (auto simp add: checkCpuFeature_def cpuid_def compiler_has_cpuid_def and_exp_eq_0_iff_not_bit)

lemma checkCpuFeature_no_intrinsic:
  "\<not> compiler_has_cpuid env \<Longrightarrow> reg < 4 \<Longrightarrow> \<not> checkCpuFeature env cpu leaf subleaf reg b"
  by (auto simp add: checkCpuFeature_def cpuid_def compiler_has_cpuid_def nth_Cons'
       less_Suc_eq numeral_eq_Suc)

lemmas runtime_feature_defs =
  hasSseSupport_def hasSse2Support_def hasSse3Support_def hasSse41Support_def
  hasSse42Support_def hasAvxSupport_def hasAvx2Support_def hasAvx512fSupport_def
  hasHardwareAes_def hasHardwareRandom_def

text \<open>
  Claim C9 says that on every architecture family without the CPU-identification query
  each of the ten runtime-feature functions returns false.  \<open>hasHardwareAes\<close> does not:
  on an AArch64 build that defines \<^verbatim>\<open>__ARM_FEATURE_AES\<close> it returns true.
\<close>

theorem hasHardwareAes_counterexample:
  "\<not> TRLC_HAS_X86_INTRINSICS
      \<lparr>macros = [(''__aarch64__'', 1), (''__ARM_FEATURE_AES'', 1)], builtins = [],
       sizeof_void_ptr = 8, int_bits = 32, long_bits = 64\<rparr>
 \<and> hasHardwareAes
      \<lparr>macros = [(''__aarch64__'', 1), (''__ARM_FEATURE_AES'', 1)], builtins = [],
       sizeof_void_ptr = 8, int_bits = 32, long_bits = 64\<rparr> zero_processor"
  by (simp add: TRLC_HAS_X86_INTRINSICS_def TRLC_HAS_ARM_INTRINSICS_def hasHardwareAes_def
      defined_def)

text \<open>
  Claim C9, amended.  On an x86 build (one of \<^verbatim>\<open>__x86_64__\<close>, \<^verbatim>\<open>__i386__\<close>, \<^verbatim>\<open>_M_X64\<close>,
  \<^verbatim>\<open>_M_IX86\<close> is defined) whose compiler has the query intrinsic (MSVC, GCC or Clang), each
  runtime-feature function returns the bit of the query given by the table: sse leaf 1,
  sub-leaf 0, EDX bit 25; sse2 EDX bit 26; sse3 ECX bit 0; sse4_1 ECX bit 19; sse4_2 ECX bit
  20; avx ECX bit 28; avx2 leaf 7, sub-leaf 0, EBX bit 5; avx512f EBX bit 16; hardware_aes
  leaf 1 ECX bit 25; hardware_random ECX bit 30.  On an x86 build with another compiler the
  query is not issued and all ten return false.  On a build that is not x86, all of them
  but \<open>hasHardwareAes\<close> return false, and \<open>hasHardwareAes\<close> is true exactly when the ARM
  intrinsics are available and \<^verbatim>\<open>__ARM_FEATURE_AES\<close> is defined.
\<close>

theorem runtime_features_table:
  "(TRLC_HAS_X86_INTRINSICS env \<and> compiler_has_cpuid env \<longrightarrow>
      hasSseSupport env cpu = bit (edx (cpu 1 0)) 25
    \<and> hasSse2Support env cpu = bit (edx (cpu 1 0)) 26
    \<and> hasSse3Support env cpu = bit (ecx (cpu 1 0)) 0
    \<and> hasSse41Support env cpu = bit (ecx (cpu 1 0)) 19
    \<and> hasSse42Support env cpu = bit (ecx (cpu 1 0)) 20
    \<and> hasAvxSupport env cpu = bit (ecx (cpu 1 0)) 28
    \<and> hasAvx2Support env cpu = bit (ebx (cpu 7 0)) 5
    \<and> hasAvx512fSupport env cpu = bit (ebx (cpu 7 0)) 16
    \<and> hasHardwareAes env cpu = bit (ecx (cpu 1 0)) 25
    \<and> hasHardwareRandom env cpu = bit (ecx (cpu 1 0)) 30)
 \<and> (TRLC_HAS_X86_INTRINSICS env \<and> \<not> compiler_has_cpuid env \<longrightarrow>
      \<not> hasSseSupport env cpu \<and> \<not> hasSse2Support env cpu \<and> \<not> hasSse3Support env cpu
    \<and> \<not> hasSse41Support env cpu \<and> \<not> hasSse42Support env cpu \<and> \<not> hasAvxSupport env cpu
    \<and> \<not> hasAvx2Support env cpu \<and> \<not> hasAvx512fSupport env cpu \<and> \<not> hasHardwareAes env cpu
    \<and> \<not> hasHardwareRandom env cpu)
 \<and> (\<not> TRLC_HAS_X86_INTRINSICS env \<longrightarrow>
      \<not> hasSseSupport env cpu \<and> \<not> hasSse2Support env cpu \<and> \<not> hasSse3Support env cpu
    \<and> \<not> hasSse41Support env cpu \<and> \<not> hasSse42Support env cpu \<and> \<not> hasAvxSupport env cpu
    \<and> \<not> hasAvx2Support env cpu \<and> \<not> hasAvx512fSupport env cpu \<and> \<not> hasHardwareRandom env cpu
    \<and> (hasHardwareAes env cpu \<longleftrightarrow>
         TRLC_HAS_ARM_INTRINSICS env \<and> defined env ''__ARM_FEATURE_AES''))"
  by (simp add: runtime_feature_defs checkCpuFeature_bit checkCpuFeature_no_intrinsic)

theorem runtime_features_table_witness:
  "TRLC_HAS_X86_INTRINSICS
     \<lparr>macros = [(''__x86_64__'', 1), (''__GNUC__'', 13)], builtins = [], sizeof_void_ptr = 8, int_bits = 32, long_bits = 64\<rparr>
 \<and> compiler_has_cpuid
     \<lparr>macros = [(''__x86_64__'', 1), (''__GNUC__'', 13)], builtins = [], sizeof_void_ptr = 8, int_bits = 32, long_bits = 64\<rparr>
 \<and> hasSse2Support
     \<lparr>macros = [(''__x86_64__'', 1), (''__GNUC__'', 13)], builtins = [], sizeof_void_ptr = 8, int_bits = 32, long_bits = 64\<rparr> sse2_processor
 \<and> \<not> hasAvxSupport
     \<lparr>macros = [(''__x86_64__'', 1), (''__GNUC__'', 13)], builtins = [], sizeof_void_ptr = 8, int_bits = 32, long_bits = 64\<rparr> sse2_processor
 \<and> TRLC_HAS_X86_INTRINSICS
     \<lparr>macros = [(''__i386__'', 1)], builtins = [], sizeof_void_ptr = 8, int_bits = 32, long_bits = 64\<rparr>
 \<and> \<not> compiler_has_cpuid
     \<lparr>macros = [(''__i386__'', 1)], builtins = [], sizeof_void_ptr = 8, int_bits = 32, long_bits = 64\<rparr>
 \<and> \<not> hasSse2Support
     \<lparr>macros = [(''__i386__'', 1)], builtins = [], sizeof_void_ptr = 8, int_bits = 32, long_bits = 64\<rparr> sse2_processor
 \<and> \<not> TRLC_HAS_X86_INTRINSICS
     \<lparr>macros = [(''__riscv'', 1)], builtins = [], sizeof_void_ptr = 8, int_bits = 32, long_bits = 64\<rparr>
 \<and> \<not> hasSse2Support
     \<lparr>macros = [(''__riscv'', 1)], builtins = [], sizeof_void_ptr = 8, int_bits = 32, long_bits = 64\<rparr> sse2_processor
 \<and> \<not> hasHardwareAes
     \<lparr>macros = [(''__riscv'', 1)], builtins = [], sizeof_void_ptr = 8, int_bits = 32, long_bits = 64\<rparr> sse2_processor
 \<and> hasHardwareAes
     \<lparr>macros = [(''__aarch64__'', 1), (''__ARM_FEATURE_AES'', 1)], builtins = [], sizeof_void_ptr = 8, int_bits = 32, long_bits = 64\<rparr> sse2_processor"
  using runtime_features_table
      [of "\<lparr>macros = [(''__x86_64__'', 1), (''__GNUC__'', 13)], builtins = [], sizeof_void_ptr = 8, int_bits = 32, long_bits = 64\<rparr>" sse2_processor]
    runtime_features_table
      [of "\<lparr>macros = [(''__i386__'', 1)], builtins = [], sizeof_void_ptr = 8, int_bits = 32, long_bits = 64\<rparr>" sse2_processor]
    runtime_features_table
      [of "\<lparr>macros = [(''__riscv'', 1)], builtins = [], sizeof_void_ptr = 8, int_bits = 32, long_bits = 64\<rparr>" sse2_processor]
    runtime_features_table
      [of "\<lparr>macros = [(''__aarch64__'', 1), (''__ARM_FEATURE_AES'', 1)], builtins = [], sizeof_void_ptr = 8, int_bits = 32, long_bits = 64\<rparr>" sse2_processor]
  by (simp_all add: TRLC_HAS_X86_INTRINSICS_def TRLC_HAS_ARM_INTRINSICS_def compiler_has_cpuid_def
      defined_def sse2_processor_def)

section \<open>Properties of core.hpp\<close>

lemma run_Nil: "run [] s = s"
  by (simp add: run_def)

lemma run_Cons: "run (t # ts) s = run ts (initializePlatform_step t s)"
  by (simp add: run_def)

lemma run_snoc: "run (ts @ [t]) s = initializePlatform_step t (run ts s)"
  by (simp add: run_def)

lemma step_keeps_done:
  "g_platform_initialized s \<Longrightarrow> g_platform_initialized (initializePlatform_step t s)"
  by (cases "pcs s t") (simp_all add: initializePlatform_step_def goto_def)

lemma run_keeps_done:
  "g_platform_initialized s \<Longrightarrow> g_platform_initialized (run ts s)"
  by (induction ts arbitrary: s) (simp_all add: run_Nil run_Cons step_keeps_done)

lemma step_stored_before_clear:
  assumes "stored_before_clear s"
  shows "stored_before_clear (initializePlatform_step t s)"
proof -
  have "g_platform_initialized (initializePlatform_step t s)"
    if "pcs (initializePlatform_step t s) u = ClearInProgress" for u
  proof (cases "u = t")
    case True
    with that show ?thesis
      by (cases "pcs s t") (simp_all add: initializePlatform_step_def goto_def split: if_splits)
  next
    case False
    with that have "pcs s u = ClearInProgress"
      by (cases "pcs s t") (simp_all add: initializePlatform_step_def goto_def split: if_splits)
    with assms have "g_platform_initialized s"
      by (auto simp add: stored_before_clear_def)
    then show ?thesis by (rule step_keeps_done)
  qed
  then show ?thesis by (simp add: stored_before_clear_def)
qed

lemma reachable_stored_before_clear: "stored_before_clear (run ts initial_state)"
proof (induction ts rule: rev_induct)
  case Nil
  show ?case by (simp add: run_Nil stored_before_clear_def initial_state_def)
next
  case (snoc t ts)
  then show ?case by (simp add: run_snoc step_stored_before_clear)
qed

lemma return_implies_done:
  assumes "stored_before_clear s" and "returns t s"
  shows "g_platform_initialized (initializePlatform_step t s)"
proof (cases "pcs s t")
  case ClearInProgress
  with assms(1) have "g_platform_initialized s" by (auto simp add: stored_before_clear_def)
  then show ?thesis by (rule step_keeps_done)
qed (use assms(2) in \<open>simp_all add: returns_def initializePlatform_step_def goto_def split: if_splits\<close>)

lemma done_transitions_eq:
  "done_transitions ts s =
     (if \<not> g_platform_initialized s \<and> g_platform_initialized (run ts s) then 1 else 0)"
proof (induction ts arbitrary: s)
  case Nil
  show ?case by (simp add: run_Nil)
next
  case (Cons t ts)
  show ?case
    using run_keeps_done [of "initializePlatform_step t s" ts] step_keeps_done [of s t]
    by (auto simp add: Cons.IH run_Cons)
qed

lemma observed_done_returns:
  assumes "g_platform_initialized s" and "pcs s t = LoadDone"
  shows "returns t s"
    and "g_platform_initialized (initializePlatform_step t s) = g_platform_initialized s"
    and "g_initialization_in_progress (initializePlatform_step t s) = g_initialization_in_progress s"
  using assms by (simp_all add: returns_def initializePlatform_step_def goto_def)

lemma later_call_noop:
  assumes "g_platform_initialized s" and "pcs s t = Idle"
  shows "run [t, t] s = s"
proof -
  have "(pcs s)(t := Idle) = pcs s"
    using assms(2) by (simp add: fun_upd_idem)
  then show ?thesis
    using assms by (simp add: run_def initializePlatform_step_def goto_def)
qed

lemma first_call:
  "run [t, t, t, t, t] initial_state = initial_state\<lparr>g_platform_initialized := True\<rparr>"
  by (simp add: run_def initializePlatform_step_def goto_def initial_state_def fun_upd_idem)

lemma goto_simps:
  "pcs (goto t p s) u = (if u = t then p else pcs s u)"
  "g_platform_initialized (goto t p s) = g_platform_initialized s"
  "g_initialization_in_progress (goto t p s) = g_initialization_in_progress s"
  by (simp_all add: goto_def)

lemma some_thread_at_goto:
  assumes "pcs s t = p" and "q \<noteq> p"
  shows "some_thread_at (goto t p' s) q \<longleftrightarrow> q = p' \<or> some_thread_at s q"
proof
  assume "some_thread_at (goto t p' s) q"
  then obtain u where u: "pcs (goto t p' s) u = q" by (auto simp add: some_thread_at_def)
  show "q = p' \<or> some_thread_at s q"
  proof (cases "u = t")
    case True
    with u show ?thesis by (simp add: goto_simps)
  next
    case False
    with u have "pcs s u = q" by (simp add: goto_simps)
    then show ?thesis by (auto simp add: some_thread_at_def)
  qed
next
  assume "q = p' \<or> some_thread_at s q"
  then show "some_thread_at (goto t p' s) q"
  proof
    assume "q = p'"
    then have "pcs (goto t p' s) t = q" by (simp add: goto_simps)
    then show ?thesis unfolding some_thread_at_def by (rule exI)
  next
    assume "some_thread_at s q"
    then obtain u where u: "pcs s u = q" by (auto simp add: some_thread_at_def)
    with assms have "u \<noteq> t" by auto
    with u have "pcs (goto t p' s) u = q" by (simp add: goto_simps)
    then show ?thesis unfolding some_thread_at_def by (rule exI)
  qed
qed

lemma some_thread_at_flags [simp]:
  "some_thread_at (s\<lparr>g_platform_initialized := b\<rparr>) p = some_thread_at s p"
  "some_thread_at (s\<lparr>g_initialization_in_progress := b\<rparr>) p = some_thread_at s p"
  by (simp_all add: some_thread_at_def)

lemma stored_before_clear_at:
  "stored_before_clear s \<longleftrightarrow> (some_thread_at s ClearInProgress \<longrightarrow> g_platform_initialized s)"
  by (auto simp add: stored_before_clear_def some_thread_at_def)

lemma step_winner_present:
  assumes "winner_present s" and "stored_before_clear s"
  shows "winner_present (initializePlatform_step t s)"
proof (cases "pcs s t")
  case Idle
  with assms show ?thesis
    by (simp add: winner_present_def initializePlatform_step_def goto_simps
        some_thread_at_goto [where p = Idle])
next
  case LoadDone
  with assms show ?thesis
    by (simp add: winner_present_def initializePlatform_step_def goto_simps
        some_thread_at_goto [where p = LoadDone])
next
  case CasInProgress
  with assms show ?thesis
    by (auto simp add: winner_present_def stored_before_clear_at initializePlatform_step_def
        goto_simps some_thread_at_goto [where p = CasInProgress])
next
  case SpinWait
  have same: "goto t SpinWait s = s"
    using SpinWait by (simp add: goto_def fun_upd_idem)
  have "some_thread_at s SpinWait"
    using SpinWait by (auto simp add: some_thread_at_def)
  with SpinWait assms show ?thesis
    by (auto simp add: winner_present_def initializePlatform_step_def goto_simps same
        some_thread_at_goto [where p = SpinWait])
next
  case StoreDone
  then have "pcs (initializePlatform_step t s) t = ClearInProgress"
    "g_platform_initialized (initializePlatform_step t s)"
    by (simp_all add: initializePlatform_step_def goto_simps)
  then show ?thesis
    by (auto simp add: winner_present_def some_thread_at_def)
next
  case ClearInProgress
  with assms have "g_platform_initialized s"
    by (auto simp add: stored_before_clear_def)
  with ClearInProgress show ?thesis
    by (simp add: winner_present_def initializePlatform_step_def goto_simps)
qed

lemma reachable_winner_present: "winner_present (run ts initial_state)"
proof (induction ts rule: rev_induct)
  case Nil
  show ?case
    by (simp add: run_Nil winner_present_def some_thread_at_def initial_state_def)
next
  case (snoc t ts)
  then show ?case
    by (simp add: run_snoc step_winner_present reachable_stored_before_clear)
qed

lemma can_return_ClearInProgress:
  assumes "pcs s t = ClearInProgress"
  shows "pcs (run [t] s) t = Idle"
  using assms by (simp add: run_def initializePlatform_step_def goto_simps)

lemma can_return_StoreDone:
  assumes "pcs s t = StoreDone"
  shows "pcs (run [t, t] s) t = Idle"
  using assms by (simp add: run_def initializePlatform_step_def goto_simps)

lemma can_return_SpinWait:
  assumes "winner_present s" and "pcs s t = SpinWait"
  shows "\<exists>rest. pcs (run rest s) t = Idle"
proof (cases "g_platform_initialized s")
  case True
  with assms(2) have "pcs (run [t] s) t = Idle"
    by (simp add: run_def initializePlatform_step_def goto_simps)
  then show ?thesis ..
next
  case False
  with assms have "some_thread_at s StoreDone"
    by (auto simp add: winner_present_def some_thread_at_def)
  then obtain u where u: "pcs s u = StoreDone"
    by (auto simp add: some_thread_at_def)
  with assms(2) have "u \<noteq> t" by auto
  with u assms(2) have "pcs (run [u, t] s) t = Idle"
    by (simp add: run_def initializePlatform_step_def goto_simps)
  then show ?thesis ..
qed

lemma can_return_CasInProgress:
  assumes "winner_present s" and "stored_before_clear s" and "pcs s t = CasInProgress"
  shows "\<exists>rest. pcs (run rest s) t = Idle"
proof -
  let ?s' = "initializePlatform_step t s"
  have inv: "winner_present ?s'"
    using assms(1,2) by (rule step_winner_present)
  have "pcs ?s' t = StoreDone \<or> pcs ?s' t = SpinWait"
    using assms(3) by (simp add: initializePlatform_step_def goto_simps)
  then have "\<exists>rest. pcs (run rest ?s') t = Idle"
    using can_return_StoreDone [of ?s' t] can_return_SpinWait [OF inv, of t] by blast
  then obtain rest where "pcs (run (t # rest) s) t = Idle"
    by (auto simp add: run_Cons)
  then show ?thesis ..
qed

lemma can_return_LoadDone:
  assumes "winner_present s" and "stored_before_clear s" and "pcs s t = LoadDone"
  shows "\<exists>rest. pcs (run rest s) t = Idle"
proof -
  let ?s' = "initializePlatform_step t s"
  have inv: "winner_present ?s'" "stored_before_clear ?s'"
    using assms(1,2) by (simp_all add: step_winner_present step_stored_before_clear)
  have "pcs ?s' t = Idle \<or> pcs ?s' t = CasInProgress"
    using assms(3) by (simp add: initializePlatform_step_def goto_simps)
  then have "\<exists>rest. pcs (run rest ?s') t = Idle"
  proof
    assume "pcs ?s' t = Idle"
    then have "pcs (run [] ?s') t = Idle" by (simp add: run_Nil)
    then show ?thesis ..
  next
    assume "pcs ?s' t = CasInProgress"
    with inv show ?thesis by (rule can_return_CasInProgress)
  qed
  then obtain rest where "pcs (run (t # rest) s) t = Idle"
    by (auto simp add: run_Cons)
  then show ?thesis ..
qed

lemma call_can_return:
  assumes "winner_present s" and "stored_before_clear s"
  shows "\<exists>rest. pcs (run rest s) t = Idle"
proof (cases "pcs s t")
  case Idle
  then have "pcs (run [] s) t = Idle" by (simp add: run_Nil)
  then show ?thesis ..
next
  case LoadDone
  with assms show ?thesis by (rule can_return_LoadDone)
next
  case CasInProgress
  with assms show ?thesis by (rule can_return_CasInProgress)
next
  case SpinWait
  with assms(1) show ?thesis by (rule can_return_SpinWait)
next
  case StoreDone
  then have "pcs (run [t, t] s) t = Idle" by (rule can_return_StoreDone)
  then show ?thesis ..
next
  case ClearInProgress
  then have "pcs (run [t] s) t = Idle" by (rule can_return_ClearInProgress)
  then show ?thesis ..
qed

text \<open>
  Claim C7.  The two flags start as (false, false).  Along every execution of any number
  of threads calling \<open>initializePlatform\<close>: the done flag is never reset; it changes from
  false to true exactly once if it is true at the end and never otherwise; the first call,
  run on its own, returns after five steps with the done flag set and the in-progress
  flag clear; a call that finds the done flag set returns at that step and changes no
  flag, and such a call run on its own leaves the whole state as it was; after every
  return from \<open>initializePlatform\<close>, \<open>isPlatformInitialized\<close>, which reads the done flag,
  is true; and every call can be run on to its return.
\<close>

theorem initialization_state_machine:
  assumes "s = run schedule initial_state"
  shows "\<not> isPlatformInitialized initial_state
       \<and> run [t, t, t, t, t] initial_state = initial_state\<lparr>g_platform_initialized := True\<rparr>
       \<and> (isPlatformInitialized s \<longrightarrow> isPlatformInitialized (initializePlatform_step t s))
       \<and> done_transitions schedule initial_state = (if isPlatformInitialized s then 1 else 0)
       \<and> (isPlatformInitialized s \<and> pcs s t = LoadDone \<longrightarrow>
            returns t s
          \<and> g_platform_initialized (initializePlatform_step t s) = g_platform_initialized s
          \<and> g_initialization_in_progress (initializePlatform_step t s)
              = g_initialization_in_progress s)
       \<and> (isPlatformInitialized s \<and> pcs s t = Idle \<longrightarrow> run [t, t] s = s)
       \<and> (returns t s \<longrightarrow> isPlatformInitialized (initializePlatform_step t s))
       \<and> (\<exists>rest. pcs (run rest s) t = Idle)"
proof -
  have a: "\<not> isPlatformInitialized initial_state"
    by (simp add: isPlatformInitialized_def initial_state_def)
  have c: "done_transitions schedule initial_state = (if isPlatformInitialized s then 1 else 0)"
    using a by (simp add: done_transitions_eq assms isPlatformInitialized_def)
  have d: "returns t s \<longrightarrow> isPlatformInitialized (initializePlatform_step t s)"
    using return_implies_done [of s t] reachable_stored_before_clear [of schedule]
    by (simp add: assms isPlatformInitialized_def)
  have e: "\<exists>rest. pcs (run rest s) t = Idle"
    unfolding assms
    using reachable_winner_present reachable_stored_before_clear by (rule call_can_return)
  show ?thesis
    using a c d e first_call [of t] step_keeps_done [of s t] observed_done_returns [of s t]
      later_call_noop [of s t]
    by (simp add: isPlatformInitialized_def)
qed

theorem initialization_state_machine_witness:
  "isPlatformInitialized (run [0, 0, 0, 0, 0] initial_state)
 \<and> done_transitions [0, 0, 0, 0, 0] initial_state = 1
 \<and> pcs (run [0, 0, 0, 0, 0, 1] initial_state) 1 = LoadDone
 \<and> returns 1 (run [0, 0, 0, 0, 0, 1] initial_state)
 \<and> isPlatformInitialized (run [0, 0, 0, 0, 0, 1, 1] initial_state)
 \<and> \<not> g_initialization_in_progress (run [0, 0, 0, 0, 0, 1, 1] initial_state)"
  using initialization_state_machine [of "run [0, 0, 0, 0, 0] initial_state" "[0, 0, 0, 0, 0]" 0]
    initialization_state_machine
      [of "run [0, 0, 0, 0, 0, 1] initial_state" "[0, 0, 0, 0, 0, 1]" 1]
  by (simp add: run_def initializePlatform_step_def goto_def initial_state_def
      isPlatformInitialized_def returns_def)

end
